theory Spec2Isabelle
  imports Complex_Main "HOL-Library.Word" "HOL-Library.AList"
begin

section \<open>Matcha-TTS: the NSF vocoder glue and the RMVPE pitch extractor\<close>

text \<open>
  The development embeds three pieces of the repository:
  \<^item> \<^verbatim>\<open>NSFHead\<close> (\<^verbatim>\<open>matcha/cli.py\<close>): the adapter around the NSF vocoder's ONNX session;
  \<^item> \<^verbatim>\<open>to_waveform\<close> (\<^verbatim>\<open>matcha/cli.py\<close>): mel tensor to PCM samples through \<^verbatim>\<open>NSFHead\<close>;
  \<^item> \<^verbatim>\<open>RMVPEOnnxPitchExtractor\<close> (\<^verbatim>\<open>matcha/data/text_mel_datamodule.py\<close>).

  Conventions of the embedding.
  \<^item> A floating-point number is the real number it stands for; NaN and the infinities do
    not exist. The sessions return \<^verbatim>\<open>float32\<close> arrays, and the arrays that the code casts
    to \<^verbatim>\<open>float32\<close> are taken to hold \<^verbatim>\<open>float32\<close> values already, so that the cast keeps
    them. The rounding of an arithmetic result to \<^verbatim>\<open>float32\<close> is written out, as
    \<open>round_f32\<close>, in the two places where numpy computes on a session's answer: the
    product by \<open>32767\<close> in \<^verbatim>\<open>NSFHead.forward\<close> and the scaling of F0 in \<^verbatim>\<open>extract\<close>. The
    threshold handed to the pitch session stands for the \<^verbatim>\<open>float32\<close> nearest to it. The
    product \<open>0.01 * sr\<close> and the pitch quantisation are exact; Python's \<^verbatim>\<open>pow\<close> is a
    parameter of \<^verbatim>\<open>extract\<close>.
  \<^item> A numpy array is its shape and its elements in row-major order.
  \<^item> An exception is a value; a function that can raise returns \<open>exn + 'a\<close>. The
    message texts of numpy's and Python's own exceptions are not kept.
  \<^item> The ONNX sessions are parameters. A function that may call a session returns,
    beside its result, the list of the feeds it called the session with.
  \<^item> \<^verbatim>\<open>print\<close> calls have no effect on any result and are left out.
\<close>

subsection \<open>Exceptions\<close>

text \<open>
  \<open>RuntimeError msg arg\<close> is Python's \<^verbatim>\<open>RuntimeError(msg)\<close> when \<open>arg\<close> is \<open>None\<close>
  and \<^verbatim>\<open>RuntimeError(msg, e)\<close> when it is \<open>Some e\<close>. \<open>OrtError\<close> stands for whatever
  an onnxruntime session raises (all of them subclasses of \<^verbatim>\<open>Exception\<close>).
\<close>

datatype exn =
    RuntimeError string "exn option"
  | ValueError
  | IndexError
  | AxisError
  | OverflowError
  | OrtError string

text \<open>
  What a call did: the feeds it ran an ONNX session with, in order, and what it returned
  or raised.
\<close>

record ('c, 'r) outcome =
  calls :: "'c list"
  result :: "exn + 'r"

subsection \<open>numpy arrays\<close>

record 'a ndarray =
  shape :: "nat list"
  data :: "'a list"

definition ndim :: "'a ndarray \<Rightarrow> nat" where
  "ndim a = length (shape a)"

text \<open>An array is well formed when it holds as many elements as its shape says.\<close>

definition wf_array :: "'a ndarray \<Rightarrow> bool" where
  "wf_array a = (length (data a) = prod_list (shape a))"

text \<open>\<^verbatim>\<open>a.squeeze()\<close>: every axis of length one is removed.\<close>

definition squeeze :: "'a ndarray \<Rightarrow> 'a ndarray" where
  "squeeze a = a\<lparr>shape := filter (\<lambda>n. n \<noteq> 1) (shape a)\<rparr>"

text \<open>\<^verbatim>\<open>np.expand_dims(a, axis=0)\<close>.\<close>

definition expand_dims0 :: "'a ndarray \<Rightarrow> 'a ndarray" where
  "expand_dims0 a = a\<lparr>shape := 1 # shape a\<rparr>"

text \<open>Elementwise operations keep the shape.\<close>

definition map_array :: "('a \<Rightarrow> 'b) \<Rightarrow> 'a ndarray \<Rightarrow> 'b ndarray" where
  "map_array f a = \<lparr>shape = shape a, data = map f (data a)\<rparr>"

text \<open>\<^verbatim>\<open>a.reshape(1, len(a))\<close> for a one-dimensional \<open>a\<close>.\<close>

definition reshape_row :: "'a ndarray \<Rightarrow> 'a ndarray" where
  "reshape_row a = a\<lparr>shape := [1, hd (shape a)]\<rparr>"

text \<open>\<^verbatim>\<open>np.full(n, v)\<close>.\<close>

definition np_full :: "nat \<Rightarrow> 'a \<Rightarrow> 'a ndarray" where
  "np_full n v = \<lparr>shape = [n], data = replicate n v\<rparr>"

text \<open>
  Three-dimensional arrays: \<open>at3 a i j k\<close> reads \<^verbatim>\<open>a[i, j, k]\<close>, and \<open>build3\<close> makes the
  array of a given shape from its elements.
\<close>

definition at3 :: "'a ndarray \<Rightarrow> nat \<Rightarrow> nat \<Rightarrow> nat \<Rightarrow> 'a" where
  "at3 a i j k = data a ! ((i * (shape a ! 1) + j) * (shape a ! 2) + k)"

definition build3 :: "nat \<Rightarrow> nat \<Rightarrow> nat \<Rightarrow> (nat \<Rightarrow> nat \<Rightarrow> nat \<Rightarrow> 'a) \<Rightarrow> 'a ndarray" where
  "build3 s0 s1 s2 f =
     \<lparr>shape = [s0, s1, s2],
      data = map (\<lambda>n. f (n div (s1 * s2)) ((n div s2) mod s1) (n mod s2)) [0..<s0 * s1 * s2]\<rparr>"

text \<open>\<^verbatim>\<open>np.repeat(a, r, axis=2)\<close> and \<^verbatim>\<open>a.transpose(0, 2, 1)\<close> on a three-dimensional array.\<close>

definition repeat_axis2 :: "nat \<Rightarrow> 'a ndarray \<Rightarrow> 'a ndarray" where
  "repeat_axis2 r a =
     build3 (shape a ! 0) (shape a ! 1) (r * (shape a ! 2)) (\<lambda>i j k. at3 a i j (k div r))"

definition transpose_021 :: "'a ndarray \<Rightarrow> 'a ndarray" where
  "transpose_021 a =
     build3 (shape a ! 0) (shape a ! 2) (shape a ! 1) (\<lambda>i j k. at3 a i k j)"

subsection \<open>Python and numpy scalars\<close>

text \<open>\<^verbatim>\<open>int(x)\<close> and \<^verbatim>\<open>astype\<close> to an integer type truncate toward zero.\<close>

definition py_int :: "real \<Rightarrow> int" where
  "py_int x = (if 0 \<le> x then \<lfloor>x\<rfloor> else \<lceil>x\<rceil>)"

text \<open>\<^verbatim>\<open>np.rint\<close>: the nearest integer, a tie going to the even one.\<close>

definition rint :: "real \<Rightarrow> int" where
  "rint x =
     (let f = \<lfloor>x\<rfloor>; r = x - of_int f
      in if r < 1 / 2 then f else if 1 / 2 < r then f + 1 else if even f then f else f + 1)"

text \<open>
  The nearest \<^verbatim>\<open>float32\<close> to a real number, a tie going to the even mantissa: numbers of
  24 significant bits, the exponent of the leading bit not below \<open>-126\<close>. (An overflow
  to infinity is not modelled.)
\<close>

definition float32_exponent :: "real \<Rightarrow> int" where
  "float32_exponent x = max \<lfloor>log 2 \<bar>x\<bar>\<rfloor> (- 126)"

definition round_f32 :: "real \<Rightarrow> real" where
  "round_f32 x =
     (if x = 0 then 0
      else let ulp = 2 powi (float32_exponent x - 23)
           in of_int (rint (x / ulp)) * ulp)"

text \<open>
  \<^verbatim>\<open>a[k:]\<close> on a one-dimensional array: a negative \<open>k\<close> counts from the end, and the
  start is clipped into the array.
\<close>

definition slice_start :: "int \<Rightarrow> nat \<Rightarrow> nat" where
  "slice_start k n = (if k < 0 then nat (max (int n + k) 0) else min (nat k) n)"

definition slice_from :: "int \<Rightarrow> 'a ndarray \<Rightarrow> 'a ndarray" where
  "slice_from k a =
     (let s = slice_start k (length (data a))
      in \<lparr>shape = [length (data a) - s], data = drop s (data a)\<rparr>)"

subsection \<open>The log-mel pitch quantisation\<close>

text \<open>
  Both \<^verbatim>\<open>RMVPEOnnxPitchExtractor.extract\<close> and \<^verbatim>\<open>to_waveform\<close> hold the same lines:
  \<^verbatim>\<open>
  f0_mel = 1127 * np.log(1 + pitch / 700)
  f0_mel[f0_mel > 0] = (f0_mel[f0_mel > 0] - f0_mel_min) * 254 / (f0_mel_max - f0_mel_min) + 1
  f0_mel[f0_mel <= 1] = 1
  f0_mel[f0_mel > 255] = 255
  pitch = np.rint(f0_mel).astype(np.int64)
  \<close>
  The three masked assignments act on each element by itself. \<open>ln\<close> is the real
  logarithm: the model says nothing faithful about a pitch at or below \<open>-700\<close>, where
  numpy yields an infinity or NaN.
\<close>

definition f0_mel_of :: "real \<Rightarrow> real" where
  "f0_mel_of f0 = 1127 * ln (1 + f0 / 700)"

definition coarse_of :: "real \<Rightarrow> real \<Rightarrow> real \<Rightarrow> int" where
  "coarse_of f0_mel_min f0_mel_max p =
     (let m0 = f0_mel_of p;
          m1 = (if 0 < m0 then (m0 - f0_mel_min) * 254 / (f0_mel_max - f0_mel_min) + 1 else m0);
          m2 = (if m1 \<le> 1 then 1 else m1);
          m3 = (if 255 < m2 then 255 else m2)
      in rint m3)"

definition f0_coarse_of :: "real \<Rightarrow> real \<Rightarrow> real ndarray \<Rightarrow> int ndarray" where
  "f0_coarse_of f0_mel_min f0_mel_max pitch = map_array (coarse_of f0_mel_min f0_mel_max) pitch"

subsection \<open>\<^verbatim>\<open>NSFHead\<close>\<close>

text \<open>
  The session of onnxruntime is a parameter: the names of the model's inputs
  (\<^verbatim>\<open>get_inputs()[i].name\<close>) and what \<^verbatim>\<open>run(None, feed)\<close> returns for a feed. A feed is
  a Python dict, kept as an association list in insertion order.
\<close>

datatype tensor = F32 "real ndarray" | I64 "int ndarray"

type_synonym feed = "(string \<times> tensor) list"

record ort_session =
  input_names :: "string list"
  run :: "feed \<Rightarrow> exn + real ndarray list"

text \<open>
  What numpy takes from its platform: the draws of \<^verbatim>\<open>np.random.randn\<close>, and the result
  of casting a float outside the range of \<^verbatim>\<open>int16\<close> (numpy leaves it to the C cast, which
  the language does not define).
\<close>

record numpy_env =
  randn :: "nat \<Rightarrow> real"
  int16_oor :: "real \<Rightarrow> 16 word"

definition astype_int16 :: "numpy_env \<Rightarrow> real \<Rightarrow> 16 word" where
  "astype_int16 np x =
     (let t = py_int x
      in if - 32768 \<le> t \<and> t \<le> 32767 then word_of_int t else int16_oor np x)"

text \<open>A dict literal: a key written twice keeps its first place and its last value.\<close>

definition py_dict :: "('k \<times> 'v) list \<Rightarrow> ('k \<times> 'v) list" where
  "py_dict kvs = foldl (\<lambda>d (k, v). AList.update k v d) [] kvs"

record NSFHead =
  model :: ort_session
  sampling_rate :: int

text \<open>\<^verbatim>\<open>NSFHead.__init__\<close>; \<open>InferenceSession\<close> is onnxruntime's loader.\<close>

definition NSFHead_init ::
  "(string \<Rightarrow> string list \<Rightarrow> exn + ort_session) \<Rightarrow> string \<Rightarrow> int \<Rightarrow> string option
     \<Rightarrow> exn + NSFHead" where
  "NSFHead_init InferenceSession model_path sr device =
     (if device = Some ''cpu'' \<or> device = None then
        (let providers = [''CPUExecutionProvider'']
         in case InferenceSession model_path providers of
              Inl e \<Rightarrow> Inl e
            | Inr m \<Rightarrow> Inr \<lparr>model = m, sampling_rate = sr\<rparr>)
      else Inl (RuntimeError ''Unsportted Device'' None))"

text \<open>
  The dict that \<^verbatim>\<open>NSFHead.forward\<close> feeds the session: the model's first six input
  names, each with its array.
\<close>

definition onnx_input_of ::
  "string list \<Rightarrow> tensor \<Rightarrow> tensor \<Rightarrow> tensor \<Rightarrow> tensor \<Rightarrow> tensor \<Rightarrow> tensor \<Rightarrow> feed" where
  "onnx_input_of names hubert hubert_length pitch pitchf ds rnd =
     py_dict
       [(names ! 0, hubert), (names ! 1, hubert_length), (names ! 2, pitch),
        (names ! 3, pitchf), (names ! 4, ds), (names ! 5, rnd)]"

text \<open>
  \<^verbatim>\<open>NSFHead.forward\<close>. The six input names are read in order, so a model with fewer than
  six inputs raises before the session runs. The session's output is a \<^verbatim>\<open>float32\<close> array,
  so its product by the integer \<open>32767\<close> is computed in \<^verbatim>\<open>float32\<close>.
\<close>

definition NSFHead_forward ::
  "numpy_env \<Rightarrow> NSFHead \<Rightarrow> tensor \<Rightarrow> tensor \<Rightarrow> tensor \<Rightarrow> tensor \<Rightarrow> tensor \<Rightarrow> tensor
     \<Rightarrow> (feed, 16 word ndarray) outcome" where
  "NSFHead_forward np self hubert hubert_length pitch pitchf ds rnd =
     (let names = input_names (model self)
      in if length names < 6 then \<lparr>calls = [], result = Inl IndexError\<rparr>
         else
           let onnx_input = onnx_input_of names hubert hubert_length pitch pitchf ds rnd
           in \<lparr>calls = [onnx_input],
               result =
                 (case run (model self) onnx_input of
                    Inl e \<Rightarrow> Inl e
                  | Inr [] \<Rightarrow> Inl IndexError
                  | Inr (w # _) \<Rightarrow>
                      Inr (map_array (\<lambda>x. astype_int16 np (round_f32 (x * 32767))) w))\<rparr>)"

text \<open>
  \<^verbatim>\<open>NSFHead.inference\<close>, called with a float array \<open>hubertIn\<close>, a float array \<open>pitchfIn\<close>
  and an integer array \<open>pitchIIn\<close>, as \<^verbatim>\<open>to_waveform\<close> does: the two \<^verbatim>\<open>astype\<close> calls then
  keep their arrays. \<^verbatim>\<open>hubert.shape[1]\<close> raises on an array of fewer than two axes, and
  \<^verbatim>\<open>out_wav[0:]\<close> on one that \<^verbatim>\<open>squeeze\<close> has left without any axis.
\<close>

definition NSFHead_inference ::
  "numpy_env \<Rightarrow> NSFHead \<Rightarrow> real ndarray \<Rightarrow> real ndarray \<Rightarrow> int ndarray
     \<Rightarrow> (feed, 16 word ndarray) outcome" where
  "NSFHead_inference np self hubertIn pitchfIn pitchIIn =
     (let sid = 0;
          hubert = hubertIn
      in if ndim hubert < 2 then \<lparr>calls = [], result = Inl IndexError\<rparr>
         else
           let hubert_length = shape hubert ! 1;
               pitch = pitchIIn;
               pitchf = pitchfIn;
               ds = \<lparr>shape = [1], data = [sid]\<rparr>;
               rnd = \<lparr>shape = [1, 192, hubert_length],
                      data = map (randn np) [0..<192 * hubert_length]\<rparr>;
               hubert_length = \<lparr>shape = [1], data = [int hubert_length]\<rparr>;
               out = NSFHead_forward np self (F32 hubert) (I64 hubert_length) (I64 pitch)
                       (F32 pitchf) (I64 ds) (F32 rnd)
           in \<lparr>calls = calls out,
               result =
                 (case result out of
                    Inl e \<Rightarrow> Inl e
                  | Inr out_wav \<Rightarrow>
                      (let out_wav = squeeze out_wav
                       in if ndim out_wav = 0 then Inl IndexError else Inr out_wav))\<rparr>)"

subsection \<open>\<^verbatim>\<open>to_waveform\<close>\<close>

text \<open>
  \<open>hubert_of_mel\<close> is the line
  \<^verbatim>\<open>hubert = np.repeat(hubert, 2, axis=2).transpose(0, 2, 1).astype(np.float32)\<close>
  on an array of three axes; \<^verbatim>\<open>np.repeat\<close> raises on an array of fewer than three axes
  and \<^verbatim>\<open>transpose(0, 2, 1)\<close> on one of more. \<^verbatim>\<open>np.full(hubert_length, 220)\<close> is an integer
  array that the product with the float \<^verbatim>\<open>2 ** (f0_up_key / 12)\<close> turns into floats.
\<close>

definition hubert_of_mel :: "real ndarray \<Rightarrow> real ndarray" where
  "hubert_of_mel hubert = transpose_021 (repeat_axis2 2 hubert)"

definition to_waveform ::
  "numpy_env \<Rightarrow> (string \<Rightarrow> string list \<Rightarrow> exn + ort_session) \<Rightarrow> real ndarray
     \<Rightarrow> (feed, 16 word ndarray) outcome" where
  "to_waveform np InferenceSession mel =
     (let f0_min = 50;
          f0_max = 1100;
          f0_mel_min = 1127 * ln (1 + f0_min / 700);
          f0_mel_max = 1127 * ln (1 + f0_max / 700);
          hubert = mel
      in if ndim hubert < 3 then \<lparr>calls = [], result = Inl AxisError\<rparr>
         else if ndim hubert \<noteq> 3 then \<lparr>calls = [], result = Inl ValueError\<rparr>
         else
           let hubert = hubert_of_mel hubert;
               hubert_length = shape hubert ! 1;
               f0_up_key = 0;
               pitchf = np_full hubert_length 220;
               pitchf = map_array (\<lambda>x. x * 2 powr (f0_up_key / 12)) pitchf;
               pitch = pitchf;
               pitch = f0_coarse_of f0_mel_min f0_mel_max pitch;
               pitchf = reshape_row pitchf;
               pitch = reshape_row pitch;
               model_path = ''/content/drive/MyDrive/Models/kiki.onnx'';
               sr = 40000
           in case NSFHead_init InferenceSession model_path sr (Some ''cpu'') of
                Inl e \<Rightarrow> \<lparr>calls = [], result = Inl e\<rparr>
              | Inr nsfhead \<Rightarrow>
                  (let audio = NSFHead_inference np nsfhead hubert pitchf pitch
                   in \<lparr>calls = calls audio, result = map_sum id squeeze (result audio)\<rparr>))"

subsection \<open>\<^verbatim>\<open>RMVPEOnnxPitchExtractor\<close>\<close>

text \<open>
  The pitch session is a parameter: what
  \<^verbatim>\<open>run(["f0", "uv"], {"waveform": w, "threshold": t})\<close> returns for \<open>w\<close> and \<open>t\<close>. The fields
  \<open>file_path\<close> and \<open>pitch_model\<close> are the source's \<^verbatim>\<open>self.file\<close> and \<^verbatim>\<open>self.model\<close>.
\<close>

record rmvpe_session =
  run_f0_uv :: "real ndarray \<Rightarrow> real ndarray \<Rightarrow> exn + real ndarray list"

record RMVPEOnnxPitchExtractor =
  file_path :: string
  f0_min :: real
  f0_max :: real
  f0_mel_min :: real
  f0_mel_max :: real
  threshold :: real
  pitch_model :: rmvpe_session

definition RMVPEOnnxPitchExtractor_init ::
  "(string \<Rightarrow> string list \<Rightarrow> exn + rmvpe_session) \<Rightarrow> string \<Rightarrow> real
     \<Rightarrow> exn + RMVPEOnnxPitchExtractor" where
  "RMVPEOnnxPitchExtractor_init InferenceSession path thr =
     (case InferenceSession path [''CPUExecutionProvider''] of
        Inl e \<Rightarrow> Inl e
      | Inr m \<Rightarrow>
          Inr \<lparr>file_path = path, f0_min = 50, f0_max = 1100,
               f0_mel_min = 1127 * ln (1 + 50 / 700),
               f0_mel_max = 1127 * ln (1 + 1100 / 700),
               threshold = thr, pitch_model = m\<rparr>)"

text \<open>The texts of \<^verbatim>\<open>str(n)\<close> for a natural number and of \<^verbatim>\<open>str(a.shape)\<close>.\<close>

fun show_nat :: "nat \<Rightarrow> string" where
  "show_nat n =
     (if n < 10 then [''0123456789'' ! n]
      else show_nat (n div 10) @ [''0123456789'' ! (n mod 10)])"

declare show_nat.simps [simp del]

fun show_shape :: "nat list \<Rightarrow> string" where
  "show_shape [] = ''()''"
| "show_shape [n] = ''('' @ show_nat n @ '',)''"
| "show_shape (n # ns) = ''('' @ show_nat n @ concat (map (\<lambda>m. '', '' @ show_nat m) ns) @ '')''"

definition class_name :: string where
  "class_name = ''RMVPEOnnxPitchExtractor''"

definition ndim_message :: "string \<Rightarrow> 'a ndarray \<Rightarrow> string" where
  "ndim_message var a =
     ''Exception in '' @ class_name @ '': '' @ var @ ''.ndim is not 1 (size: ''
       @ show_nat (ndim a) @ '', shape: '' @ show_shape (shape a) @ '')''"

text \<open>
  \<^verbatim>\<open>pitchf[-f0.shape[0]:] = f0[:pitchf.shape[0]]\<close> for a one-dimensional \<open>pitchf\<close> and an
  \<open>f0\<close> that comes out of \<^verbatim>\<open>squeeze\<close>, so that none of its axes has length one.
  \<^item> Without any axis, \<^verbatim>\<open>f0.shape[0]\<close> raises.
  \<^item> With one axis, the target slice starts at \<open>slice_start (- n) L\<close> (the whole buffer when
    \<open>n = 0\<close>, since \<open>-0\<close> is \<open>0\<close>), the source is the first \<open>L\<close> elements of \<open>f0\<close>, and numpy
    copies a source of the target's length, repeats a source of length one, and raises on
    any other.
  \<^item> With two axes or more the source keeps more axes than the target after numpy has
    dropped its leading axes of length one, and the assignment raises.
  numpy checks the shapes before it writes: an assignment that raises leaves the buffer
  as it was.
\<close>

definition assign_tail :: "real ndarray \<Rightarrow> real ndarray \<Rightarrow> exn + real ndarray" where
  "assign_tail pitchf f0 =
     (if ndim f0 = 0 then Inl IndexError
      else if ndim f0 = 1 then
        (let L = hd (shape pitchf);
             start = slice_start (- int (hd (shape f0))) L;
             src = take L (data f0)
         in if length src = L - start then Inr (pitchf\<lparr>data := take start (data pitchf) @ src\<rparr>)
            else if length src = 1 then
              Inr (pitchf\<lparr>data := take start (data pitchf) @ replicate (L - start) (hd src)\<rparr>)
            else Inl ValueError)
      else Inl ValueError)"

text \<open>
  What a call of \<^verbatim>\<open>extract\<close> did: the outcome, and the caller's \<^verbatim>\<open>pitchf\<close> array after
  the call (the method writes into the array it is given).
\<close>

record extract_outcome = "(real ndarray \<times> real ndarray, int ndarray \<times> real ndarray) outcome" +
  buffer :: "real ndarray"

text \<open>
  The body of the \<^verbatim>\<open>try\<close> block, for \<^verbatim>\<open>audio\<close> and \<^verbatim>\<open>pitchf\<close> given as numpy arrays (the two
  conversions from tensors are skipped). The commented-out lines of the source are the
  only ones that read \<^verbatim>\<open>window\<close> and \<^verbatim>\<open>silence_front\<close>.

  \<^verbatim>\<open>f0 *= pow(2, f0_up_key / 12)\<close>: Python's \<^verbatim>\<open>pow\<close> on floats is the C library's, whose
  last bit the language does not fix, so it is the parameter \<open>pow\<close>: \<open>pow 2 y\<close> is the
  float \<^verbatim>\<open>pow(2, y)\<close> returns. It raises \<^verbatim>\<open>OverflowError\<close> when the result exceeds the
  doubles, that is from \<open>y = 1024\<close> on (\<^verbatim>\<open>f0_up_key\<close> from \<open>12288\<close> on). The product is in
  place on the \<^verbatim>\<open>float32\<close> array \<open>f0\<close>: numpy casts the factor to \<^verbatim>\<open>float32\<close> and rounds
  each product to \<^verbatim>\<open>float32\<close>.
\<close>

definition extract_try ::
  "(real \<Rightarrow> real \<Rightarrow> real) \<Rightarrow> RMVPEOnnxPitchExtractor \<Rightarrow> real ndarray \<Rightarrow> real ndarray
     \<Rightarrow> real \<Rightarrow> real \<Rightarrow> real \<Rightarrow> real \<Rightarrow> extract_outcome" where
  "extract_try pow self audio pitchf f0_up_key sr window silence_front =
     (if ndim audio \<noteq> 1 then
        \<lparr>calls = [], result = Inl (RuntimeError (ndim_message ''audio'' audio) None),
         buffer = pitchf\<rparr>
      else if ndim pitchf \<noteq> 1 then
        \<lparr>calls = [], result = Inl (RuntimeError (ndim_message ''pitchf'' pitchf) None),
         buffer = pitchf\<rparr>
      else
        let minimumFrames = 0.01 * sr;
            targetFrameLength = py_int minimumFrames;
            audio = slice_from targetFrameLength audio;
            audio = expand_dims0 audio;
            feed = (audio, \<lparr>shape = [1], data = [threshold self]\<rparr>)
        in case run_f0_uv (pitch_model self) (fst feed) (snd feed) of
             Inl e \<Rightarrow> \<lparr>calls = [feed], result = Inl e, buffer = pitchf\<rparr>
           | Inr [] \<Rightarrow> \<lparr>calls = [feed], result = Inl IndexError, buffer = pitchf\<rparr>
           | Inr (out0 # _) \<Rightarrow>
               (let f0 = squeeze out0
                in if 1024 \<le> f0_up_key / 12 then
                     \<lparr>calls = [feed], result = Inl OverflowError, buffer = pitchf\<rparr>
                   else
                     let factor = pow 2 (f0_up_key / 12);
                         f0 = map_array (\<lambda>x. round_f32 (x * round_f32 factor)) f0
                     in case assign_tail pitchf f0 of
                          Inl e \<Rightarrow> \<lparr>calls = [feed], result = Inl e, buffer = pitchf\<rparr>
                        | Inr pitchf \<Rightarrow>
                            (let f0_coarse =
                                   f0_coarse_of (f0_mel_min self) (f0_mel_max self) pitchf
                             in \<lparr>calls = [feed], result = Inr (f0_coarse, pitchf),
                                 buffer = pitchf\<rparr>)))"

text \<open>\<^verbatim>\<open>extract\<close>: the \<^verbatim>\<open>except Exception\<close> clause wraps whatever the body raised.\<close>

definition RMVPEOnnxPitchExtractor_extract ::
  "(real \<Rightarrow> real \<Rightarrow> real) \<Rightarrow> RMVPEOnnxPitchExtractor \<Rightarrow> real ndarray \<Rightarrow> real ndarray
     \<Rightarrow> real \<Rightarrow> real \<Rightarrow> real \<Rightarrow> real \<Rightarrow> extract_outcome" where
  "RMVPEOnnxPitchExtractor_extract pow self audio pitchf f0_up_key sr window silence_front =
     (let r = extract_try pow self audio pitchf f0_up_key sr window silence_front
      in case result r of
           Inl e \<Rightarrow> r\<lparr>result := Inl (RuntimeError (''Exception in '' @ class_name) (Some e))\<rparr>
         | Inr v \<Rightarrow> r)"

subsection \<open>Concrete inputs\<close>

text \<open>
  A vocoder session with the six inputs of an RVC model that answers every feed with
  four \<^verbatim>\<open>float32\<close> samples, an environment, and small arrays: the inputs at which the
  theorems below are evaluated.
\<close>

definition demo_session :: ort_session where
  "demo_session =
     \<lparr>input_names = [''phone'', ''phone_lengths'', ''pitch'', ''pitchf'', ''ds'', ''rnd''],
      run = (\<lambda>feed. Inr [\<lparr>shape = [1, 1, 4], data = [1, - 1, 1 / 2, 32769 / 65536]\<rparr>])\<rparr>"

definition demo_loader :: "string \<Rightarrow> string list \<Rightarrow> exn + ort_session" where
  "demo_loader path providers = Inr demo_session"

definition demo_head :: NSFHead where
  "demo_head = \<lparr>model = demo_session, sampling_rate = 40000\<rparr>"

definition demo_np :: numpy_env where
  "demo_np = \<lparr>randn = (\<lambda>i. 0), int16_oor = (\<lambda>x. 0)\<rparr>"

definition demo_mel :: "real ndarray" where
  "demo_mel = \<lparr>shape = [1, 2, 3], data = [1, 2, 3, 4, 5, 6]\<rparr>"

definition empty_mel :: "real ndarray" where
  "empty_mel = \<lparr>shape = [1, 2, 0], data = []\<rparr>"

text \<open>
  The arrays \<^verbatim>\<open>to_waveform\<close> hands to \<^verbatim>\<open>NSFHead.inference\<close> for \<open>demo_mel\<close>, and three
  arrays whose frame counts disagree: two frames of hidden features, three of pitch.
\<close>

definition demo_pitchf6 :: "real ndarray" where
  "demo_pitchf6 = \<lparr>shape = [1, 6], data = [220, 220, 220, 220, 220, 220]\<rparr>"

definition demo_pitch6 :: "int ndarray" where
  "demo_pitch6 = \<lparr>shape = [1, 6], data = [60, 60, 60, 60, 60, 60]\<rparr>"

definition mismatch_hubert :: "real ndarray" where
  "mismatch_hubert = \<lparr>shape = [1, 2, 1], data = [1, 2]\<rparr>"

definition mismatch_pitchf :: "real ndarray" where
  "mismatch_pitchf = \<lparr>shape = [1, 3], data = [220, 220, 220]\<rparr>"

definition mismatch_pitch :: "int ndarray" where
  "mismatch_pitch = \<lparr>shape = [1, 3], data = [60, 60, 60]\<rparr>"

text \<open>
  A pitch session that finds two frames, one that finds a single frame and one that
  fails; the extractor built on a session; a \<open>pow\<close> that is exact; five samples of audio;
  a buffer of four frames.
\<close>

definition demo_pitch_session :: rmvpe_session where
  "demo_pitch_session =
     \<lparr>run_f0_uv = (\<lambda>w t. Inr [\<lparr>shape = [1, 2], data = [100, 200]\<rparr>,
                              \<lparr>shape = [1, 2], data = [0, 0]\<rparr>])\<rparr>"

definition one_frame_pitch_session :: rmvpe_session where
  "one_frame_pitch_session =
     \<lparr>run_f0_uv = (\<lambda>w t. Inr [\<lparr>shape = [1, 1], data = [100]\<rparr>,
                              \<lparr>shape = [1, 1], data = [0]\<rparr>])\<rparr>"

definition demo_pow :: "real \<Rightarrow> real \<Rightarrow> real" where
  "demo_pow a b = a powr b"

definition failing_pitch_session :: rmvpe_session where
  "failing_pitch_session = \<lparr>run_f0_uv = (\<lambda>w t. Inl (OrtError ''invalid input''))\<rparr>"

definition extractor_of :: "rmvpe_session \<Rightarrow> RMVPEOnnxPitchExtractor" where
  "extractor_of m =
     \<lparr>file_path = ''rmvpe.onnx'', f0_min = 50, f0_max = 1100,
      f0_mel_min = 1127 * ln (1 + 50 / 700), f0_mel_max = 1127 * ln (1 + 1100 / 700),
      threshold = 0.03, pitch_model = m\<rparr>"

definition demo_audio :: "real ndarray" where
  "demo_audio = \<lparr>shape = [5], data = [0.125, 0.25, 0.375, 0.5, 0.625]\<rparr>"

definition demo_pitchf :: "real ndarray" where
  "demo_pitchf = \<lparr>shape = [4], data = [5, 6, 7, 8]\<rparr>"

section \<open>Properties\<close>

subsection \<open>Arrays of three axes\<close>

lemma flat_index_less:
  fixes a b c d :: nat
  assumes "a < b" and "c < d"
  shows "a * d + c < b * d"
proof -
  have "a * d + c < a * d + d" using assms(2) by simp
  also have "\<dots> = Suc a * d" by simp
  also have "\<dots> \<le> b * d" using assms(1) by (intro mult_le_mono1) simp
  finally show ?thesis .
qed

lemma at3_build3:
  assumes "i < s0" and "j < s1" and "k < s2"
  shows "at3 (build3 s0 s1 s2 f) i j k = f i j k"
proof -
  define n where "n = (i * s1 + j) * s2 + k"
  have "i * s1 + j < s0 * s1" using assms(1,2) by (rule flat_index_less)
  then have n_less: "n < s0 * s1 * s2" unfolding n_def using assms(3) by (rule flat_index_less)
  have d2: "n div s2 = i * s1 + j" unfolding n_def using assms(3) by simp
  have m2: "n mod s2 = k" unfolding n_def using assms(3) by simp
  have "n div (s1 * s2) = n div (s2 * s1)" by (simp only: mult.commute)
  also have "\<dots> = n div s2 div s1" by (rule div_mult2_eq)
  finally have d1: "n div (s1 * s2) = i" using d2 assms(2) by simp
  have m1: "(n div s2) mod s1 = j" using d2 assms(2) by simp
  have "at3 (build3 s0 s1 s2 f) i j k = data (build3 s0 s1 s2 f) ! n"
    by (simp add: at3_def build3_def n_def)
  also have "\<dots> = f (n div (s1 * s2)) ((n div s2) mod s1) (n mod s2)"
    using n_less by (simp add: build3_def)
  finally show ?thesis by (simp add: d1 m1 m2)
qed

lemma shape_build3 [simp]: "shape (build3 s0 s1 s2 f) = [s0, s1, s2]"
  by (simp add: build3_def)

lemma wf_build3 [simp]: "wf_array (build3 s0 s1 s2 f)"
  by (simp add: build3_def wf_array_def)

lemma shape_hubert_of_mel:
  "shape mel = [B, D, T] \<Longrightarrow> shape (hubert_of_mel mel) = [B, 2 * T, D]"
  by (simp add: hubert_of_mel_def transpose_021_def repeat_axis2_def)

lemma at3_hubert_of_mel:
  assumes "shape mel = [B, D, T]" and "b < B" and "j < 2 * T" and "d < D"
  shows "at3 (hubert_of_mel mel) b j d = at3 mel b d (j div 2)"
proof -
  have "at3 (hubert_of_mel mel) b j d = at3 (repeat_axis2 2 mel) b d j"
    using assms by (simp add: hubert_of_mel_def transpose_021_def repeat_axis2_def at3_build3)
  also have "\<dots> = at3 mel b d (j div 2)"
    using assms by (simp add: repeat_axis2_def at3_build3)
  finally show ?thesis .
qed

text \<open>
  C1 (frame alignment). For a mel array of shape \<open>[1, D, T]\<close> with \<open>D > 0\<close> and \<open>T > 0\<close>, the
  alignment step of \<^verbatim>\<open>to_waveform\<close> yields an array of shape \<open>[1, 2T, D]\<close> holding as many
  elements as its shape says, whose frame \<open>j\<close> is the input's time step \<open>j div 2\<close> (each
  time step twice, depth and time exchanged); so the even frame \<open>2i\<close> is the input's
  time step \<open>i\<close>, value for value.
\<close>

theorem frame_alignment:
  assumes "shape mel = [1, D, T]" and "0 < D" and "0 < T"
  shows "shape (hubert_of_mel mel) = [1, 2 * T, D]
       \<and> wf_array (hubert_of_mel mel)
       \<and> (\<forall>j<2 * T. \<forall>d<D. at3 (hubert_of_mel mel) 0 j d = at3 mel 0 d (j div 2))
       \<and> (\<forall>i<T. \<forall>d<D. at3 (hubert_of_mel mel) 0 (2 * i) d = at3 mel 0 d i)"
proof (intro conjI allI impI)
  show "shape (hubert_of_mel mel) = [1, 2 * T, D]"
    using assms(1) by (rule shape_hubert_of_mel)
  show "wf_array (hubert_of_mel mel)"
    by (simp add: hubert_of_mel_def transpose_021_def)
  show "at3 (hubert_of_mel mel) 0 j d = at3 mel 0 d (j div 2)" if "j < 2 * T" "d < D" for j d
    using at3_hubert_of_mel [OF assms(1) _ that] by simp
  show "at3 (hubert_of_mel mel) 0 (2 * i) d = at3 mel 0 d i" if "i < T" "d < D" for i d
    using at3_hubert_of_mel [OF assms(1), of 0 "2 * i" d] that by simp
qed

theorem frame_alignment_witness:
  "shape demo_mel = [1, 2, 3]
   \<and> shape (hubert_of_mel demo_mel) = [1, 6, 2]
   \<and> at3 (hubert_of_mel demo_mel) 0 4 1 = 6
   \<and> at3 (hubert_of_mel demo_mel) 0 5 0 = 3"
proof -
  have sh: "shape demo_mel = [1, 2, 3]" by (simp add: demo_mel_def)
  have th: "shape (hubert_of_mel demo_mel) = [1, 2 * 3, 2]
       \<and> wf_array (hubert_of_mel demo_mel)
       \<and> (\<forall>j<2 * 3. \<forall>d<2. at3 (hubert_of_mel demo_mel) 0 j d = at3 demo_mel 0 d (j div 2))
       \<and> (\<forall>i<3. \<forall>d<2. at3 (hubert_of_mel demo_mel) 0 (2 * i) d = at3 demo_mel 0 d i)"
    using frame_alignment [OF sh] by simp
  from th have "at3 (hubert_of_mel demo_mel) 0 (2 * 2) 1 = at3 demo_mel 0 1 2" by simp
  then have a: "at3 (hubert_of_mel demo_mel) 0 4 1 = 6" by (simp add: at3_def demo_mel_def)
  from th have "at3 (hubert_of_mel demo_mel) 0 5 0 = at3 demo_mel 0 0 (5 div 2)" by simp
  then have b: "at3 (hubert_of_mel demo_mel) 0 5 0 = 3" by (simp add: at3_def demo_mel_def)
  from sh th a b show ?thesis by simp
qed

subsection \<open>The pitch quantisation\<close>

lemma rint_range:
  assumes "1 \<le> x" and "x \<le> 255"
  shows "1 \<le> rint x \<and> rint x \<le> 255"
proof -
  define f where "f = \<lfloor>x\<rfloor>"
  have lo: "1 \<le> f" using assms(1) by (simp add: f_def le_floor_iff)
  have fx: "of_int f \<le> x" by (simp add: f_def)
  have hi: "f \<le> 255" using assms(2) fx by linarith
  have up: "f + 1 \<le> 255" if "1 / 2 \<le> x - of_int f"
  proof -
    have "of_int f < x" using that by linarith
    then have "of_int f < (255::real)" using assms(2) by linarith
    then show ?thesis by linarith
  qed
  have cases: "rint x = f \<or> (rint x = f + 1 \<and> 1 / 2 \<le> x - of_int f)"
    by (simp add: rint_def Let_def f_def)
  then show ?thesis using lo hi up by auto
qed

lemma coarse_of_range: "1 \<le> coarse_of mn mx p \<and> coarse_of mn mx p \<le> 255"
  unfolding coarse_of_def Let_def
  by (rule rint_range) auto

lemma rint_of_int: "rint (of_int k) = k"
  by (simp add: rint_def)

lemma coarse_of_zero: "coarse_of mn mx 0 = 1"
  using rint_of_int [of 1] by (simp add: coarse_of_def f0_mel_of_def)

text \<open>
  C2 (range of the coarse pitch). For a pitch buffer whose values are all at least \<open>0\<close>,
  the quantisation that \<^verbatim>\<open>extract\<close> and \<^verbatim>\<open>to_waveform\<close> share, with whatever bounds
  \<open>f0_mel_min\<close> and \<open>f0_mel_max\<close>, yields an integer array of the buffer's shape with every
  element from \<open>1\<close> to \<open>255\<close>; and when the buffer is all zero, every element is \<open>1\<close>.
  (The coarse array \<^verbatim>\<open>extract\<close> returns is this quantisation of the buffer it returns, by
  \<open>extract_result_coarse\<close> below; the one \<^verbatim>\<open>to_waveform\<close> feeds the vocoder is the subject
  of C10.)
\<close>

theorem pitch_coarse_range:
  assumes "\<forall>x\<in>set (data pitch). 0 \<le> x"
  shows "shape (f0_coarse_of mn mx pitch) = shape pitch
       \<and> length (data (f0_coarse_of mn mx pitch)) = length (data pitch)
       \<and> (\<forall>c\<in>set (data (f0_coarse_of mn mx pitch)). 1 \<le> c \<and> c \<le> 255)
       \<and> ((\<forall>x\<in>set (data pitch). x = 0)
            \<longrightarrow> data (f0_coarse_of mn mx pitch) = replicate (length (data pitch)) 1)"
proof (intro conjI impI)
  show "shape (f0_coarse_of mn mx pitch) = shape pitch"
    by (simp add: f0_coarse_of_def map_array_def)
  show "length (data (f0_coarse_of mn mx pitch)) = length (data pitch)"
    by (simp add: f0_coarse_of_def map_array_def)
  show "\<forall>c\<in>set (data (f0_coarse_of mn mx pitch)). 1 \<le> c \<and> c \<le> 255"
    using coarse_of_range by (auto simp add: f0_coarse_of_def map_array_def)
  show "data (f0_coarse_of mn mx pitch) = replicate (length (data pitch)) 1"
    if "\<forall>x\<in>set (data pitch). x = 0"
    using that by (auto simp add: f0_coarse_of_def map_array_def coarse_of_zero map_replicate_const [symmetric] intro!: map_cong)
qed

theorem pitch_coarse_range_witness:
  "set (data (f0_coarse_of (1127 * ln (1 + 50 / 700)) (1127 * ln (1 + 1100 / 700))
          \<lparr>shape = [3], data = [0, 220, 1100]\<rparr>)) \<subseteq> {1..255}
   \<and> data (f0_coarse_of (1127 * ln (1 + 50 / 700)) (1127 * ln (1 + 1100 / 700))
          \<lparr>shape = [2], data = [0, 0]\<rparr>) = [1, 1]"
proof
  have "\<forall>x\<in>set (data \<lparr>shape = [3::nat], data = [0, 220, 1100::real]\<rparr>). 0 \<le> x" by simp
  from pitch_coarse_range [OF this]
  show "set (data (f0_coarse_of (1127 * ln (1 + 50 / 700)) (1127 * ln (1 + 1100 / 700))
          \<lparr>shape = [3], data = [0, 220, 1100]\<rparr>)) \<subseteq> {1..255}"
    by (meson atLeastAtMost_iff subsetI)
  have "\<forall>x\<in>set (data \<lparr>shape = [2::nat], data = [0, 0::real]\<rparr>). 0 \<le> x" by simp
  from pitch_coarse_range [OF this]
  show "data (f0_coarse_of (1127 * ln (1 + 50 / 700)) (1127 * ln (1 + 1100 / 700))
          \<lparr>shape = [2], data = [0, 0]\<rparr>) = [1, 1]"
    by (simp add: numeral_2_eq_2)
qed

subsection \<open>Rounding to \<^verbatim>\<open>float32\<close>\<close>

lemma powr_of_int_powi: "(2::real) powr of_int k = 2 powi k"
  by (simp add: powr_real_of_int power_int_def power_divide inverse_eq_divide)

lemma float32_exponent_eq:
  assumes "2 powi e \<le> \<bar>x\<bar>" and "\<bar>x\<bar> < 2 powi (e + 1)" and "- 126 \<le> e"
  shows "float32_exponent x = e"
proof -
  have "(0::real) < 2 powi e" by simp
  then have pos: "0 < \<bar>x\<bar>" using assms(1) by linarith
  have "\<lfloor>log 2 \<bar>x\<bar>\<rfloor> = e"
    using assms(1,2) pos
    by (simp add: floor_log_eq_powr_iff powr_of_int_powi
        powr_of_int_powi [of "e + 1", simplified])
  then show ?thesis using assms(3) by (simp add: float32_exponent_def)
qed

lemma round_f32_eq:
  assumes "2 powi e \<le> \<bar>x\<bar>" and "\<bar>x\<bar> < 2 powi (e + 1)" and "- 126 \<le> e"
  shows "round_f32 x = of_int (rint (x / 2 powi (e - 23))) * 2 powi (e - 23)"
proof -
  have "(0::real) < 2 powi e" by simp
  then have "0 < \<bar>x\<bar>" using assms(1) by linarith
  then have "x \<noteq> 0" by simp
  then show ?thesis
    by (simp add: round_f32_def float32_exponent_eq [OF assms] Let_def)
qed

text \<open>
  The products of \<open>32767\<close> with the samples \<open>1\<close>, \<open>-1\<close>, \<open>1 / 2\<close> and \<open>32769 / 65536\<close>: the
  first three are \<^verbatim>\<open>float32\<close> numbers, the last one, \<open>16383.99998\<close>, rounds up to \<open>16384\<close>.
\<close>

lemma round_f32_products:
  "round_f32 32767 = 32767"
  "round_f32 (- 32767) = - 32767"
  "round_f32 (32767 / 2) = 32767 / 2"
  "round_f32 (1073741823 / 65536) = 16384"
  by (simp_all add: round_f32_eq [where e = 14] round_f32_eq [where e = 13] rint_def)

lemma round_f32_small:
  "round_f32 1 = 1" "round_f32 2 = 2" "round_f32 100 = 100" "round_f32 200 = 200"
  "round_f32 400 = 400"
  by (simp_all add: round_f32_eq [where e = 0] round_f32_eq [where e = 1]
      round_f32_eq [where e = 6] round_f32_eq [where e = 7] round_f32_eq [where e = 8] rint_def)

subsection \<open>\<^verbatim>\<open>NSFHead.forward\<close>: the conversion to PCM\<close>

lemma py_dict_distinct6:
  assumes "distinct [a, b, c, d, e, f]"
  shows "py_dict [(a, va), (b, vb), (c, vc), (d, vd), (e, ve), (f, vf)]
         = [(a, va), (b, vb), (c, vc), (d, vd), (e, ve), (f, vf)]"
  using assms by (auto simp add: py_dict_def)

lemma forward_calls:
  "6 \<le> length (input_names (model self)) \<Longrightarrow>
   calls (NSFHead_forward np self h hl p pf ds rnd)
     = [onnx_input_of (input_names (model self)) h hl p pf ds rnd]"
  by (simp add: NSFHead_forward_def Let_def)

lemma forward_result:
  "6 \<le> length (input_names (model self)) \<Longrightarrow>
   result (NSFHead_forward np self h hl p pf ds rnd)
     = (case run (model self) (onnx_input_of (input_names (model self)) h hl p pf ds rnd) of
          Inl e \<Rightarrow> Inl e
        | Inr [] \<Rightarrow> Inl IndexError
        | Inr (w # outs) \<Rightarrow>
            Inr (map_array (\<lambda>x. astype_int16 np (round_f32 (x * 32767))) w))"
  by (simp add: NSFHead_forward_def Let_def)

lemma sint_astype_int16:
  assumes "- 32769 < y" and "y < 32768"
  shows "sint (astype_int16 np y) = py_int y"
proof -
  have lo: "- 32768 \<le> py_int y"
    using assms(1) by (auto simp add: py_int_def le_floor_iff le_ceiling_iff)
  have hi: "py_int y \<le> 32767"
    using assms(2) by (auto simp add: py_int_def floor_le_iff ceiling_le_iff)
  have "sint (word_of_int (py_int y) :: 16 word) = py_int y"
    using lo hi by (simp add: sint_sbintrunc' signed_take_bit_int_eq_self)
  then show ?thesis using lo hi by (simp add: astype_int16_def Let_def)
qed

lemma astype_int16_oor:
  assumes "\<not> (- 32769 < y \<and> y < 32768)"
  shows "astype_int16 np y = int16_oor np y"
proof -
  have "py_int y < - 32768 \<or> 32767 < py_int y"
    using assms
    by (auto simp add: py_int_def floor_less_iff less_floor_iff ceiling_less_iff
        less_ceiling_iff not_less)
  then show ?thesis by (auto simp add: astype_int16_def Let_def)
qed

lemma demo_forward_result:
  "result (NSFHead_forward demo_np demo_head h hl p pf ds rnd)
     = Inr \<lparr>shape = [1, 1, 4], data = [32767, - 32767, 16383, 16384]\<rparr>"
  by (simp add: NSFHead_forward_def demo_head_def demo_session_def map_array_def
      astype_int16_def py_int_def round_f32_products Let_def)

text \<open>
  C4 (the PCM formula), as amended. The claim has \<^verbatim>\<open>forward\<close> round the product to the
  nearest integer; the code casts it, and the cast truncates toward zero. For a model of
  at least six inputs whose session returns an output, and every sample \<open>w\<close> of the first
  output, \<^verbatim>\<open>forward\<close> returns the \<^verbatim>\<open>float32\<close> product of \<open>w\<close> and \<open>32767\<close> (the product
  rounded to the nearest \<^verbatim>\<open>float32\<close>), truncated toward zero, as a 16-bit signed integer,
  when that product lies strictly between \<open>-32769\<close> and \<open>32768\<close>; it does not round to
  the nearest integer, dither or clip, and any other product is left to the platform's
  cast. The array keeps its shape.
\<close>

theorem forward_pcm_truncates:
  assumes "6 \<le> length (input_names (model self))"
    and "run (model self) (onnx_input_of (input_names (model self)) h hl p pf ds rnd)
           = Inr (w # outs)"
  shows "\<exists>r. result (NSFHead_forward np self h hl p pf ds rnd) = Inr r
           \<and> shape r = shape w
           \<and> length (data r) = length (data w)
           \<and> (\<forall>i<length (data w).
                 if - 32769 < round_f32 (data w ! i * 32767)
                    \<and> round_f32 (data w ! i * 32767) < 32768
                 then sint (data r ! i) = py_int (round_f32 (data w ! i * 32767))
                 else data r ! i = int16_oor np (round_f32 (data w ! i * 32767)))"
proof -
  let ?r = "map_array (\<lambda>x. astype_int16 np (round_f32 (x * 32767))) w"
  have "result (NSFHead_forward np self h hl p pf ds rnd) = Inr ?r"
    using assms by (simp add: forward_result)
  moreover have "shape ?r = shape w" and "length (data ?r) = length (data w)"
    by (simp_all add: map_array_def)
  moreover have "\<forall>i<length (data w).
                 if - 32769 < round_f32 (data w ! i * 32767)
                    \<and> round_f32 (data w ! i * 32767) < 32768
                 then sint (data ?r ! i) = py_int (round_f32 (data w ! i * 32767))
                 else data ?r ! i = int16_oor np (round_f32 (data w ! i * 32767))"
    by (auto simp add: map_array_def sint_astype_int16 astype_int16_oor)
  ultimately show ?thesis by blast
qed

theorem forward_pcm_truncates_witness:
  "\<exists>r. result (NSFHead_forward demo_np demo_head (F32 (hubert_of_mel demo_mel))
             (I64 \<lparr>shape = [1], data = [6]\<rparr>) (I64 demo_pitch6) (F32 demo_pitchf6)
             (I64 \<lparr>shape = [1], data = [0]\<rparr>) (F32 \<lparr>shape = [1, 192, 0], data = []\<rparr>)) = Inr r
        \<and> shape r = [1, 1, 4] \<and> sint (data r ! 2) = 16383 \<and> sint (data r ! 3) = 16384"
proof -
  have n: "6 \<le> length (input_names (model demo_head))"
    by (simp add: demo_head_def demo_session_def)
  have r: "run (model demo_head)
             (onnx_input_of (input_names (model demo_head)) (F32 (hubert_of_mel demo_mel))
                (I64 \<lparr>shape = [1], data = [6]\<rparr>) (I64 demo_pitch6) (F32 demo_pitchf6)
                (I64 \<lparr>shape = [1], data = [0]\<rparr>) (F32 \<lparr>shape = [1, 192, 0], data = []\<rparr>))
           = Inr [\<lparr>shape = [1, 1, 4], data = [1, - 1, 1 / 2, 32769 / 65536]\<rparr>]"
    by (simp add: demo_head_def demo_session_def)
  from forward_pcm_truncates [OF n r, of demo_np] show ?thesis
    by (auto simp add: less_Suc_eq eval_nat_numeral py_int_def round_f32_products)
qed

text \<open>
  The claim as stated fails at the sample \<open>1 / 2\<close>: the product is \<open>16383.5\<close>, a \<^verbatim>\<open>float32\<close>
  number, which rounds to the integer \<open>16384\<close>, and \<^verbatim>\<open>forward\<close> returns \<open>16383\<close>.
\<close>

theorem pcm_round_counterexample:
  "result (NSFHead_forward demo_np demo_head (F32 (hubert_of_mel demo_mel))
             (I64 \<lparr>shape = [1], data = [6]\<rparr>) (I64 demo_pitch6) (F32 demo_pitchf6)
             (I64 \<lparr>shape = [1], data = [0]\<rparr>) (F32 \<lparr>shape = [1, 192, 0], data = []\<rparr>))
     \<noteq> Inr (map_array (\<lambda>x. word_of_int (rint (x * 32767)))
              \<lparr>shape = [1, 1, 4], data = [1, - 1, 1 / 2, 32769 / 65536]\<rparr>)"
  by (simp add: demo_forward_result map_array_def rint_def)

text \<open>
  C5 (the PCM endpoints). Wherever the session's first output holds the sample \<open>1\<close>,
  \<^verbatim>\<open>forward\<close> returns \<open>32767\<close>, and wherever it holds \<open>-1\<close>, \<open>-32767\<close> (not \<open>-32768\<close>).
\<close>

theorem pcm_endpoints:
  assumes "6 \<le> length (input_names (model self))"
    and "run (model self) (onnx_input_of (input_names (model self)) h hl p pf ds rnd)
           = Inr (w # outs)"
  shows "\<exists>r. result (NSFHead_forward np self h hl p pf ds rnd) = Inr r
           \<and> length (data r) = length (data w)
           \<and> (\<forall>i<length (data w).
                 (data w ! i = 1 \<longrightarrow> sint (data r ! i) = 32767)
               \<and> (data w ! i = - 1 \<longrightarrow> sint (data r ! i) = - 32767))"
proof -
  let ?r = "map_array (\<lambda>x. astype_int16 np (round_f32 (x * 32767))) w"
  have "result (NSFHead_forward np self h hl p pf ds rnd) = Inr ?r"
    using assms by (simp add: forward_result)
  moreover have "length (data ?r) = length (data w)"
    by (simp add: map_array_def)
  moreover have "\<forall>i<length (data w).
                 (data w ! i = 1 \<longrightarrow> sint (data ?r ! i) = 32767)
               \<and> (data w ! i = - 1 \<longrightarrow> sint (data ?r ! i) = - 32767)"
    by (simp add: map_array_def sint_astype_int16 py_int_def round_f32_products)
  ultimately show ?thesis by blast
qed

theorem pcm_endpoints_witness:
  "\<exists>r. result (NSFHead_forward demo_np demo_head (F32 (hubert_of_mel demo_mel))
             (I64 \<lparr>shape = [1], data = [6]\<rparr>) (I64 demo_pitch6) (F32 demo_pitchf6)
             (I64 \<lparr>shape = [1], data = [0]\<rparr>) (F32 \<lparr>shape = [1, 192, 0], data = []\<rparr>)) = Inr r
        \<and> sint (data r ! 0) = 32767 \<and> sint (data r ! 1) = - 32767"
proof -
  have n: "6 \<le> length (input_names (model demo_head))"
    by (simp add: demo_head_def demo_session_def)
  have r: "run (model demo_head)
             (onnx_input_of (input_names (model demo_head)) (F32 (hubert_of_mel demo_mel))
                (I64 \<lparr>shape = [1], data = [6]\<rparr>) (I64 demo_pitch6) (F32 demo_pitchf6)
                (I64 \<lparr>shape = [1], data = [0]\<rparr>) (F32 \<lparr>shape = [1, 192, 0], data = []\<rparr>))
           = Inr [\<lparr>shape = [1, 1, 4], data = [1, - 1, 1 / 2, 32769 / 65536]\<rparr>]"
    by (simp add: demo_head_def demo_session_def)
  from pcm_endpoints [OF n r, of demo_np] show ?thesis
    by (auto simp add: less_Suc_eq eval_nat_numeral)
qed

subsection \<open>\<^verbatim>\<open>NSFHead.inference\<close>\<close>

lemma inference_unfold:
  assumes "2 \<le> ndim hubert"
  shows "NSFHead_inference np self hubert pitchf pitch =
     (let out = NSFHead_forward np self (F32 hubert)
                  (I64 \<lparr>shape = [1], data = [int (shape hubert ! 1)]\<rparr>) (I64 pitch) (F32 pitchf)
                  (I64 \<lparr>shape = [1], data = [0]\<rparr>)
                  (F32 \<lparr>shape = [1, 192, shape hubert ! 1],
                        data = map (randn np) [0..<192 * (shape hubert ! 1)]\<rparr>)
      in \<lparr>calls = calls out,
          result = (case result out of
                      Inl e \<Rightarrow> Inl e
                    | Inr out_wav \<Rightarrow>
                        if ndim (squeeze out_wav) = 0 then Inl IndexError
                        else Inr (squeeze out_wav))\<rparr>)"
  using assms by (auto simp add: NSFHead_inference_def Let_def split: sum.splits)

lemma ndim_squeeze_map_array [simp]: "ndim (squeeze (map_array f w)) = ndim (squeeze w)"
  by (simp add: ndim_def squeeze_def map_array_def)

lemma demo_inference_result:
  "2 \<le> ndim hubert \<Longrightarrow>
   result (NSFHead_inference demo_np demo_head hubert pitchf pitch)
     = Inr \<lparr>shape = [4], data = [32767, - 32767, 16383, 16384]\<rparr>"
  by (simp add: inference_unfold demo_forward_result Let_def squeeze_def ndim_def)

lemma demo_inference_calls:
  "2 \<le> ndim hubert \<Longrightarrow>
   length (calls (NSFHead_inference demo_np demo_head hubert pitchf pitch)) = 1"
  by (simp add: inference_unfold forward_calls Let_def demo_head_def demo_session_def)

text \<open>
  C3 (validation of the vocoder's inputs), as amended. The claim has \<^verbatim>\<open>inference\<close> raise
  a shape error before the session runs when the frame counts of the coarse pitch and of
  the hidden features differ; the code compares no frame counts. For a model of at least
  six inputs and hidden features of at least two axes, whatever the pitch arrays,
  \<^verbatim>\<open>inference\<close> runs the session exactly once, on the arrays as given (the length and the
  noise taken from the hidden features alone), and what it returns or raises depends on
  the session's answer alone:
  \<^item> the session's error, if the session raised;
  \<^item> an \<^verbatim>\<open>IndexError\<close>, if the session returned no output, or a first output that
    \<^verbatim>\<open>squeeze\<close> leaves without any axis (a single sample);
  \<^item> otherwise the first output, converted to PCM as \<^verbatim>\<open>forward\<close> does and squeezed.
\<close>

theorem inference_no_frame_check:
  fixes np :: numpy_env and self :: NSFHead
    and hubert pitchf :: "real ndarray" and pitch :: "int ndarray"
  defines "feed \<equiv> onnx_input_of (input_names (model self)) (F32 hubert)
                    (I64 \<lparr>shape = [1], data = [int (shape hubert ! 1)]\<rparr>) (I64 pitch) (F32 pitchf)
                    (I64 \<lparr>shape = [1], data = [0]\<rparr>)
                    (F32 \<lparr>shape = [1, 192, shape hubert ! 1],
                          data = map (randn np) [0..<192 * (shape hubert ! 1)]\<rparr>)"
  assumes "6 \<le> length (input_names (model self))" and "2 \<le> ndim hubert"
  shows "calls (NSFHead_inference np self hubert pitchf pitch) = [feed]
       \<and> result (NSFHead_inference np self hubert pitchf pitch)
           = (case run (model self) feed of
                Inl e \<Rightarrow> Inl e
              | Inr [] \<Rightarrow> Inl IndexError
              | Inr (w # outs) \<Rightarrow>
                  if ndim (squeeze w) = 0 then Inl IndexError
                  else Inr (squeeze (map_array (\<lambda>x. astype_int16 np (round_f32 (x * 32767))) w)))"
  using assms(2,3) unfolding feed_def
  by (simp add: inference_unfold forward_calls forward_result Let_def
      split: sum.splits list.splits)

theorem inference_no_frame_check_witness:
  "calls (NSFHead_inference demo_np demo_head mismatch_hubert mismatch_pitchf mismatch_pitch)
     = [[(''phone'', F32 mismatch_hubert),
         (''phone_lengths'', I64 \<lparr>shape = [1], data = [2]\<rparr>),
         (''pitch'', I64 mismatch_pitch),
         (''pitchf'', F32 mismatch_pitchf),
         (''ds'', I64 \<lparr>shape = [1], data = [0]\<rparr>),
         (''rnd'', F32 \<lparr>shape = [1, 192, 2], data = replicate 384 0\<rparr>)]]
   \<and> result (NSFHead_inference demo_np demo_head mismatch_hubert mismatch_pitchf mismatch_pitch)
       = Inr \<lparr>shape = [4], data = [32767, - 32767, 16383, 16384]\<rparr>"
proof -
  have n: "6 \<le> length (input_names (model demo_head))"
    by (simp add: demo_head_def demo_session_def)
  have d: "2 \<le> ndim mismatch_hubert" by (simp add: ndim_def mismatch_hubert_def)
  have k: "shape mismatch_hubert ! 1 = 2" by (simp add: mismatch_hubert_def)
  have z: "map (randn demo_np) [0..<384] = replicate 384 0"
    by (simp add: demo_np_def map_replicate_const)
  have f: "onnx_input_of (input_names (model demo_head)) h hl p pf ds rnd
           = [(''phone'', h), (''phone_lengths'', hl), (''pitch'', p), (''pitchf'', pf),
              (''ds'', ds), (''rnd'', rnd)]" for h hl p pf ds rnd
    by (simp add: onnx_input_of_def demo_head_def demo_session_def py_dict_distinct6)
  from inference_no_frame_check
    [OF n d, where np = demo_np and pitchf = mismatch_pitchf and pitch = mismatch_pitch]
  show ?thesis
    by (simp add: f)
      (simp add: demo_head_def demo_session_def demo_np_def mismatch_hubert_def map_array_def
        squeeze_def ndim_def astype_int16_def py_int_def round_f32_products map_replicate_const)
qed

text \<open>
  The claim as stated fails for two frames of hidden features and three of pitch: the
  session is run once and \<^verbatim>\<open>inference\<close> returns its samples.
\<close>

theorem inference_mismatch_counterexample:
  "shape mismatch_hubert ! 1 = 2 \<and> shape mismatch_pitch ! 1 = 3
   \<and> length (calls (NSFHead_inference demo_np demo_head mismatch_hubert mismatch_pitchf
                      mismatch_pitch)) = 1
   \<and> result (NSFHead_inference demo_np demo_head mismatch_hubert mismatch_pitchf mismatch_pitch)
       = Inr \<lparr>shape = [4], data = [32767, - 32767, 16383, 16384]\<rparr>"
proof -
  have "2 \<le> ndim mismatch_hubert" by (simp add: ndim_def mismatch_hubert_def)
  then show ?thesis
    by (simp add: demo_inference_result demo_inference_calls)
      (simp add: mismatch_hubert_def mismatch_pitch_def)
qed

subsection \<open>\<^verbatim>\<open>to_waveform\<close>\<close>

lemma hubert_of_empty_mel:
  "shape mel = [B, D, 0] \<Longrightarrow> hubert_of_mel mel = \<lparr>shape = [B, 0, D], data = []\<rparr>"
  by (simp add: hubert_of_mel_def transpose_021_def repeat_axis2_def build3_def)

lemma to_waveform_unfold:
  assumes "shape mel = [B, D, T]"
    and "InferenceSession ''/content/drive/MyDrive/Models/kiki.onnx'' [''CPUExecutionProvider'']
           = Inr m"
  shows "to_waveform np InferenceSession mel =
     (let audio = NSFHead_inference np \<lparr>model = m, sampling_rate = 40000\<rparr> (hubert_of_mel mel)
                    \<lparr>shape = [1, 2 * T], data = replicate (2 * T) 220\<rparr>
                    \<lparr>shape = [1, 2 * T],
                     data = replicate (2 * T)
                       (coarse_of (1127 * ln (1 + 50 / 700)) (1127 * ln (1 + 1100 / 700)) 220)\<rparr>
      in \<lparr>calls = calls audio, result = map_sum id squeeze (result audio)\<rparr>)"
  using assms
  by (simp add: to_waveform_def ndim_def Let_def NSFHead_init_def shape_hubert_of_mel
      np_full_def map_array_def reshape_row_def f0_coarse_of_def)

lemma squeeze_squeeze [simp]: "squeeze (squeeze a) = squeeze a"
  by (simp add: squeeze_def)

lemma demo_onnx_input:
  "onnx_input_of (input_names demo_session) h hl p pf ds rnd
     = [(''phone'', h), (''phone_lengths'', hl), (''pitch'', p), (''pitchf'', pf),
        (''ds'', ds), (''rnd'', rnd)]"
  by (simp add: onnx_input_of_def demo_session_def py_dict_distinct6)

lemma demo_loader_kiki:
  "demo_loader ''/content/drive/MyDrive/Models/kiki.onnx'' [''CPUExecutionProvider'']
     = Inr demo_session"
  by (simp add: demo_loader_def)

lemma demo_session_six: "6 \<le> length (input_names demo_session)"
  by (simp add: demo_session_def)

lemma demo_to_waveform:
  "shape mel = [B, D, T] \<Longrightarrow>
   result (to_waveform demo_np demo_loader mel) = Inr \<lparr>shape = [4], data = [32767, - 32767, 16383, 16384]\<rparr>
   \<and> length (calls (to_waveform demo_np demo_loader mel)) = 1"
proof -
  assume a: "shape mel = [B, D, T]"
  have l: "demo_loader ''/content/drive/MyDrive/Models/kiki.onnx'' [''CPUExecutionProvider'']
             = Inr demo_session"
    by (simp add: demo_loader_def)
  have d: "2 \<le> ndim (hubert_of_mel mel)"
    using shape_hubert_of_mel [OF a] by (simp add: ndim_def)
  show ?thesis
    using d demo_inference_result demo_inference_calls
    by (simp add: to_waveform_unfold [where InferenceSession = demo_loader, OF a l] Let_def demo_head_def [symmetric] squeeze_def)
qed

text \<open>
  C6 (an empty mel), as amended. The claim has \<^verbatim>\<open>to_waveform\<close> raise an empty-input error
  for a mel array whose time axis is empty; the code checks no length and goes on to the
  vocoder. For a mel array of shape \<open>[B, D, 0]\<close>, when the vocoder's model loads and has at
  least six inputs, \<^verbatim>\<open>to_waveform\<close> runs the session exactly once, on hidden features of
  shape \<open>[B, 0, D]\<close>, the length \<open>0\<close>, two empty pitch arrays and an empty noise array,
  and what it returns or raises depends on the session's answer alone:
  \<^item> the session's error, if the session raised;
  \<^item> an \<^verbatim>\<open>IndexError\<close>, if the session returned no output, or a first output that
    \<^verbatim>\<open>squeeze\<close> leaves without any axis (a single sample);
  \<^item> otherwise the first output, converted to PCM as \<^verbatim>\<open>forward\<close> does and squeezed.
\<close>

theorem to_waveform_empty_mel:
  fixes np :: numpy_env and mel :: "real ndarray" and m :: ort_session and B D :: nat
  defines "feed \<equiv> onnx_input_of (input_names m) (F32 \<lparr>shape = [B, 0, D], data = []\<rparr>)
                (I64 \<lparr>shape = [1], data = [0]\<rparr>)
                (I64 \<lparr>shape = [1, 0], data = []\<rparr>)
                (F32 \<lparr>shape = [1, 0], data = []\<rparr>)
                (I64 \<lparr>shape = [1], data = [0]\<rparr>)
                (F32 \<lparr>shape = [1, 192, 0], data = []\<rparr>)"
  assumes "shape mel = [B, D, 0]"
    and "InferenceSession ''/content/drive/MyDrive/Models/kiki.onnx'' [''CPUExecutionProvider'']
           = Inr m"
    and "6 \<le> length (input_names m)"
  shows "calls (to_waveform np InferenceSession mel) = [feed]
       \<and> result (to_waveform np InferenceSession mel)
           = (case run m feed of
                Inl e \<Rightarrow> Inl e
              | Inr [] \<Rightarrow> Inl IndexError
              | Inr (w # outs) \<Rightarrow>
                  if ndim (squeeze w) = 0 then Inl IndexError
                  else Inr (squeeze (map_array (\<lambda>x. astype_int16 np (round_f32 (x * 32767))) w)))"
proof -
  have h: "hubert_of_mel mel = \<lparr>shape = [B, 0, D], data = []\<rparr>"
    using assms(2) by (rule hubert_of_empty_mel)
  have d: "2 \<le> ndim (\<lparr>shape = [B, 0, D], data = []\<rparr> :: real ndarray)"
    by (simp add: ndim_def)
  show ?thesis
    using assms(4) d unfolding feed_def
    by (simp add: to_waveform_unfold [where InferenceSession = InferenceSession, OF assms(2,3)]
        h inference_unfold forward_calls forward_result Let_def
        split: sum.splits list.splits)
qed

theorem to_waveform_empty_mel_witness:
  "calls (to_waveform demo_np demo_loader empty_mel)
     = [[(''phone'', F32 \<lparr>shape = [1, 0, 2], data = []\<rparr>),
         (''phone_lengths'', I64 \<lparr>shape = [1], data = [0]\<rparr>),
         (''pitch'', I64 \<lparr>shape = [1, 0], data = []\<rparr>),
         (''pitchf'', F32 \<lparr>shape = [1, 0], data = []\<rparr>),
         (''ds'', I64 \<lparr>shape = [1], data = [0]\<rparr>),
         (''rnd'', F32 \<lparr>shape = [1, 192, 0], data = []\<rparr>)]]
   \<and> result (to_waveform demo_np demo_loader empty_mel)
       = Inr \<lparr>shape = [4], data = [32767, - 32767, 16383, 16384]\<rparr>"
proof -
  have sh: "shape empty_mel = [1, 2, 0]" by (simp add: empty_mel_def)
  from to_waveform_empty_mel
    [where InferenceSession = demo_loader and np = demo_np,
     OF sh demo_loader_kiki demo_session_six]
  show ?thesis
    by (simp add: demo_onnx_input)
      (simp add: demo_session_def map_array_def squeeze_def ndim_def astype_int16_def
        py_int_def round_f32_products)
qed

text \<open>
  The claim as stated fails for the mel array of shape \<open>[1, 2, 0]\<close>: the session is run
  once and \<^verbatim>\<open>to_waveform\<close> returns its samples.
\<close>

theorem empty_mel_counterexample:
  "shape empty_mel = [1, 2, 0]
   \<and> length (calls (to_waveform demo_np demo_loader empty_mel)) = 1
   \<and> result (to_waveform demo_np demo_loader empty_mel)
       = Inr \<lparr>shape = [4], data = [32767, - 32767, 16383, 16384]\<rparr>"
proof -
  have a: "shape empty_mel = [1, 2, 0]" by (simp add: empty_mel_def)
  from demo_to_waveform [OF a] a show ?thesis by simp
qed

text \<open>
  C10 (the constant pitch of the active path). \<^verbatim>\<open>to_waveform\<close> takes the vocoder's loader
  and no pitch session: it cannot run a pitch extractor. For a mel array of shape
  \<open>[B, D, T]\<close>, once the vocoder's model is loaded and has six inputs, the one feed
  \<^verbatim>\<open>to_waveform\<close> runs the session with holds the hidden features of \<open>2T\<close> frames, the
  length \<open>2T\<close>, a pitch track of shape \<open>[1, 2T]\<close> that is \<open>220\<close> at every frame, and a
  coarse pitch of shape \<open>[1, 2T]\<close> that is one and the same code at every frame, the code
  of \<open>220\<close>, which lies from \<open>1\<close> to \<open>255\<close>.
\<close>

theorem to_waveform_constant_pitch:
  fixes np :: numpy_env and mel :: "real ndarray"
  defines "code \<equiv> coarse_of (1127 * ln (1 + 50 / 700)) (1127 * ln (1 + 1100 / 700)) 220"
  assumes "shape mel = [B, D, T]"
    and "InferenceSession ''/content/drive/MyDrive/Models/kiki.onnx'' [''CPUExecutionProvider'']
           = Inr m"
    and "6 \<le> length (input_names m)"
  shows "calls (to_waveform np InferenceSession mel)
           = [onnx_input_of (input_names m) (F32 (hubert_of_mel mel))
                (I64 \<lparr>shape = [1], data = [int (2 * T)]\<rparr>)
                (I64 \<lparr>shape = [1, 2 * T], data = replicate (2 * T) code\<rparr>)
                (F32 \<lparr>shape = [1, 2 * T], data = replicate (2 * T) 220\<rparr>)
                (I64 \<lparr>shape = [1], data = [0]\<rparr>)
                (F32 \<lparr>shape = [1, 192, 2 * T], data = map (randn np) [0..<192 * (2 * T)]\<rparr>)]
       \<and> shape (hubert_of_mel mel) = [B, 2 * T, D]
       \<and> 1 \<le> code \<and> code \<le> 255"
proof -
  have sh: "shape (hubert_of_mel mel) = [B, 2 * T, D]"
    using assms(2) by (rule shape_hubert_of_mel)
  then have d: "2 \<le> ndim (hubert_of_mel mel)" by (simp add: ndim_def)
  have "calls (to_waveform np InferenceSession mel)
           = [onnx_input_of (input_names m) (F32 (hubert_of_mel mel))
                (I64 \<lparr>shape = [1], data = [int (2 * T)]\<rparr>)
                (I64 \<lparr>shape = [1, 2 * T], data = replicate (2 * T) code\<rparr>)
                (F32 \<lparr>shape = [1, 2 * T], data = replicate (2 * T) 220\<rparr>)
                (I64 \<lparr>shape = [1], data = [0]\<rparr>)
                (F32 \<lparr>shape = [1, 192, 2 * T], data = map (randn np) [0..<192 * (2 * T)]\<rparr>)]"
    using assms(4) d sh
    by (simp add: to_waveform_unfold [where InferenceSession = InferenceSession, OF assms(2,3)] inference_unfold forward_calls Let_def
        code_def)
  then show ?thesis using sh coarse_of_range by (simp add: code_def)
qed

theorem to_waveform_constant_pitch_witness:
  "calls (to_waveform demo_np demo_loader demo_mel)
     = [[(''phone'', F32 (hubert_of_mel demo_mel)),
         (''phone_lengths'', I64 \<lparr>shape = [1], data = [6]\<rparr>),
         (''pitch'', I64 \<lparr>shape = [1, 6], data = replicate 6
             (coarse_of (1127 * ln (1 + 50 / 700)) (1127 * ln (1 + 1100 / 700)) 220)\<rparr>),
         (''pitchf'', F32 \<lparr>shape = [1, 6], data = replicate 6 220\<rparr>),
         (''ds'', I64 \<lparr>shape = [1], data = [0]\<rparr>),
         (''rnd'', F32 \<lparr>shape = [1, 192, 6], data = replicate 1152 0\<rparr>)]]
   \<and> shape (hubert_of_mel demo_mel) = [1, 6, 2]"
proof -
  have sh: "shape demo_mel = [1, 2, 3]" by (simp add: demo_mel_def)
  have z: "map (randn demo_np) [0..<1152] = replicate 1152 0"
    by (simp add: demo_np_def map_replicate_const)
  from to_waveform_constant_pitch
    [where InferenceSession = demo_loader and np = demo_np,
     OF sh demo_loader_kiki demo_session_six]
  show ?thesis by (simp add: demo_onnx_input z)
qed

subsection \<open>\<^verbatim>\<open>RMVPEOnnxPitchExtractor.extract\<close>\<close>

lemma calls_extract:
  "calls (RMVPEOnnxPitchExtractor_extract pow self audio pitchf k sr window sf)
     = calls (extract_try pow self audio pitchf k sr window sf)"
  by (simp add: RMVPEOnnxPitchExtractor_extract_def Let_def split: sum.splits)

lemma buffer_extract:
  "buffer (RMVPEOnnxPitchExtractor_extract pow self audio pitchf k sr window sf)
     = buffer (extract_try pow self audio pitchf k sr window sf)"
  by (simp add: RMVPEOnnxPitchExtractor_extract_def Let_def split: sum.splits)

lemma result_extract:
  "result (RMVPEOnnxPitchExtractor_extract pow self audio pitchf k sr window sf)
     = (case result (extract_try pow self audio pitchf k sr window sf) of
          Inl e \<Rightarrow> Inl (RuntimeError ''Exception in RMVPEOnnxPitchExtractor'' (Some e))
        | Inr v \<Rightarrow> Inr v)"
  by (simp add: RMVPEOnnxPitchExtractor_extract_def Let_def class_name_def split: sum.splits)

lemma calls_extract_try:
  assumes "ndim audio = 1" and "ndim pitchf = 1"
  shows "calls (extract_try pow self audio pitchf k sr window sf)
     = [(expand_dims0 (slice_from (py_int (0.01 * sr)) audio),
         \<lparr>shape = [1], data = [threshold self]\<rparr>)]"
  using assms
  by (simp add: extract_try_def Let_def split: sum.splits list.splits)

lemma buffer_extract_try_failed:
  "result (extract_try pow self audio pitchf k sr window sf) = Inl e \<Longrightarrow>
   buffer (extract_try pow self audio pitchf k sr window sf) = pitchf"
  by (simp add: extract_try_def Let_def split: if_splits sum.splits list.splits)

lemma py_int_nonneg: "0 \<le> x \<Longrightarrow> 0 \<le> py_int x"
  by (simp add: py_int_def)

lemma slice_from_nonneg:
  assumes "0 \<le> k"
  shows "slice_from k a
     = \<lparr>shape = [length (data a) - nat k], data = drop (nat k) (data a)\<rparr>"
proof -
  have "drop (min (nat k) (length (data a))) (data a) = drop (nat k) (data a)"
    by (cases "nat k \<le> length (data a)") (simp_all add: min_def)
  then show ?thesis using assms by (simp add: slice_from_def slice_start_def Let_def)
qed

lemma assign_tail_1d:
  assumes "shape pitchf = [L]" and "length (data pitchf) = L"
    and "shape f0 = [n]" and "length (data f0) = n" and "n \<le> L"
  shows "assign_tail pitchf f0 =
           (if n = 0 \<and> 0 < L then Inl ValueError
            else Inr (pitchf\<lparr>data := take (L - n) (data pitchf) @ data f0\<rparr>))"
proof (cases "n = 0")
  case True
  then show ?thesis
    using assms by (auto simp add: assign_tail_def ndim_def slice_start_def Let_def)
next
  case False
  have "nat (int L - int n) = L - n" using assms(5) by linarith
  with False have "slice_start (- int n) L = L - n"
    using assms(5) by (simp add: slice_start_def max_def)
  then show ?thesis
    using False assms by (simp add: assign_tail_def ndim_def Let_def)
qed

lemma extract_try_run:
  assumes "ndim audio = 1" and "ndim pitchf = 1"
    and "run_f0_uv (pitch_model self) (expand_dims0 (slice_from (py_int (0.01 * sr)) audio))
           \<lparr>shape = [1], data = [threshold self]\<rparr> = Inr (out0 # outs)"
    and "k / 12 < 1024"
  shows "extract_try pow self audio pitchf k sr window sf =
     (let feed = (expand_dims0 (slice_from (py_int (0.01 * sr)) audio),
                  \<lparr>shape = [1], data = [threshold self]\<rparr>)
      in case assign_tail pitchf
                (map_array (\<lambda>x. round_f32 (x * round_f32 (pow 2 (k / 12)))) (squeeze out0)) of
           Inl e \<Rightarrow> \<lparr>calls = [feed], result = Inl e, buffer = pitchf\<rparr>
         | Inr p \<Rightarrow>
             \<lparr>calls = [feed],
              result = Inr (f0_coarse_of (f0_mel_min self) (f0_mel_max self) p, p),
              buffer = p\<rparr>)"
  using assms by (simp add: extract_try_def Let_def split: sum.splits)

lemma extract_result_coarse:
  assumes "result (RMVPEOnnxPitchExtractor_extract pow self audio pitchf k sr window sf)
             = Inr (c, p)"
  shows "c = f0_coarse_of (f0_mel_min self) (f0_mel_max self) p
       \<and> buffer (RMVPEOnnxPitchExtractor_extract pow self audio pitchf k sr window sf) = p"
  using assms
  by (auto simp add: result_extract buffer_extract extract_try_def Let_def
      split: sum.splits list.splits if_splits)

lemma demo_extractor_fields:
  "threshold (extractor_of m) = 0.03" "pitch_model (extractor_of m) = m"
  by (simp_all add: extractor_of_def)

text \<open>
  The write for an F0 array that \<^verbatim>\<open>squeeze\<close> leaves one-dimensional, of length \<open>n \<le> L\<close>, and
  an \<^verbatim>\<open>f0_up_key\<close> below \<open>12288\<close>. After the call the buffer still has length \<open>L\<close>, every
  position before \<open>L - n\<close> holds its prior value, and the positions \<open>L - n\<close> to \<open>L - 1\<close>
  hold the scaled F0. When \<open>n > 0\<close> the call returns that buffer; when \<open>n = 0 < L\<close> the
  slice assignment raises (an empty source for a target of length \<open>L\<close>) and the buffer is
  as it was. No answer of a single frame is among these arrays: \<^verbatim>\<open>squeeze\<close> leaves it
  without any axis.
\<close>

lemma right_aligned_write_1d:
  fixes self :: RMVPEOnnxPitchExtractor and audio pitchf :: "real ndarray"
    and f0_up_key sr window silence_front :: real and pow :: "real \<Rightarrow> real \<Rightarrow> real"
  defines "r \<equiv> RMVPEOnnxPitchExtractor_extract pow self audio pitchf f0_up_key sr window
                  silence_front"
  assumes "ndim audio = 1"
    and "shape pitchf = [L]" and "length (data pitchf) = L"
    and "run_f0_uv (pitch_model self) (expand_dims0 (slice_from (py_int (0.01 * sr)) audio))
           \<lparr>shape = [1], data = [threshold self]\<rparr> = Inr (out0 # outs)"
    and "shape (squeeze out0) = [n]" and "length (data out0) = n" and "n \<le> L"
    and "f0_up_key / 12 < 1024"
  shows "shape (buffer r) = [L] \<and> length (data (buffer r)) = L
       \<and> (\<forall>i<L - n. data (buffer r) ! i = data pitchf ! i)
       \<and> (\<forall>i<n. data (buffer r) ! (L - n + i)
                  = round_f32 (data out0 ! i * round_f32 (pow 2 (f0_up_key / 12))))
       \<and> (0 < n \<longrightarrow> (\<exists>f0_coarse. result r = Inr (f0_coarse, buffer r)))
       \<and> (n = 0 \<and> 0 < L \<longrightarrow>
            result r = Inl (RuntimeError ''Exception in RMVPEOnnxPitchExtractor''
                         (Some ValueError)))"
proof -
  let ?s = "\<lambda>x. round_f32 (x * round_f32 (pow 2 (f0_up_key / 12)))"
  let ?f0 = "map_array ?s (squeeze out0)"
  have p1: "ndim pitchf = 1" using assms(3) by (simp add: ndim_def)
  have f0s: "shape ?f0 = [n]" using assms(6) by (simp add: map_array_def)
  have f0d: "data ?f0 = map ?s (data out0)"
    by (simp add: map_array_def squeeze_def)
  have f0l: "length (data ?f0) = n" using assms(7) by (simp add: f0d)
  note at = assign_tail_1d [OF assms(3,4) f0s f0l assms(8)]
  note ex = extract_try_run [OF assms(2) p1 assms(5,9), of pow window silence_front]
  show ?thesis
  proof (cases "n = 0 \<and> 0 < L")
    case True
    then have "assign_tail pitchf ?f0 = Inl ValueError" using at by simp
    then have "buffer r = pitchf"
      and "result r = Inl (RuntimeError ''Exception in RMVPEOnnxPitchExtractor''
                         (Some ValueError))"
      unfolding r_def by (simp_all add: buffer_extract result_extract ex Let_def)
    then show ?thesis using True assms(3,4) by simp
  next
    case False
    let ?p = "pitchf\<lparr>data := take (L - n) (data pitchf) @ data ?f0\<rparr>"
    from False have "assign_tail pitchf ?f0 = Inr ?p" using at by simp
    then have b: "buffer r = ?p"
      and res: "result r = Inr (f0_coarse_of (f0_mel_min self) (f0_mel_max self) ?p, ?p)"
      unfolding r_def by (simp_all add: buffer_extract result_extract ex Let_def)
    have len: "length (take (L - n) (data pitchf)) = L - n"
      using assms(4) by simp
    have "shape (buffer r) = [L]" using b assms(3) by simp
    moreover have "length (data (buffer r)) = L"
      using b len f0l assms(8) by simp
    moreover have "\<forall>i<L - n. data (buffer r) ! i = data pitchf ! i"
      using b len by (simp add: nth_append)
    moreover have "\<forall>i<n. data (buffer r) ! (L - n + i)
                     = round_f32 (data out0 ! i * round_f32 (pow 2 (f0_up_key / 12)))"
      using b len assms(7) by (simp add: nth_append f0d)
    moreover have "\<exists>f0_coarse. result r = Inr (f0_coarse, buffer r)"
      using b res by simp
    ultimately show ?thesis using False by blast
  qed
qed

text \<open>
  So it is for the session that finds the two frames \<open>100\<close> and \<open>200\<close>, a buffer of four
  frames and a shift of twelve semitones.
\<close>

lemma right_aligned_write_two_frames:
  "buffer (RMVPEOnnxPitchExtractor_extract demo_pow (extractor_of demo_pitch_session)
             demo_audio demo_pitchf 12 300 160 0)
     = \<lparr>shape = [4], data = [5, 6, 200, 400]\<rparr>
   \<and> (\<exists>f0_coarse.
         result (RMVPEOnnxPitchExtractor_extract demo_pow (extractor_of demo_pitch_session)
                   demo_audio demo_pitchf 12 300 160 0)
           = Inr (f0_coarse, \<lparr>shape = [4], data = [5, 6, 200, 400]\<rparr>))"
proof -
  let ?r = "RMVPEOnnxPitchExtractor_extract demo_pow (extractor_of demo_pitch_session)
              demo_audio demo_pitchf 12 300 160 0"
  have a: "ndim demo_audio = 1" by (simp add: ndim_def demo_audio_def)
  have s: "shape demo_pitchf = [4]" and l: "length (data demo_pitchf) = 4"
    by (simp_all add: demo_pitchf_def)
  have e: "run_f0_uv (pitch_model (extractor_of demo_pitch_session))
             (expand_dims0 (slice_from (py_int (0.01 * 300)) demo_audio))
             \<lparr>shape = [1], data = [threshold (extractor_of demo_pitch_session)]\<rparr>
           = Inr [\<lparr>shape = [1, 2], data = [100, 200]\<rparr>, \<lparr>shape = [1, 2], data = [0, 0]\<rparr>]"
    by (simp add: demo_extractor_fields demo_pitch_session_def)
  have q: "shape (squeeze \<lparr>shape = [1, 2], data = [100, 200 :: real]\<rparr>) = [2]"
    by (simp add: squeeze_def)
  have n: "length (data \<lparr>shape = [1, 2], data = [100, 200 :: real]\<rparr>) = 2" by simp
  have le: "(2::nat) \<le> 4" by simp
  have k: "(12::real) / 12 < 1024" by simp
  note th = right_aligned_write_1d [OF a s l e q n le k, of demo_pow 160 0]
  from th have sh: "shape (buffer ?r) = [4]" and len: "length (data (buffer ?r)) = 4"
    by simp_all
  from th have "\<forall>i<2. data (buffer ?r) ! i = data demo_pitchf ! i" by simp
  then have lo: "data (buffer ?r) ! 0 = 5" "data (buffer ?r) ! 1 = 6"
    by (simp_all add: demo_pitchf_def)
  from th have h: "\<forall>i<2. data (buffer ?r) ! (2 + i)
                     = round_f32 ([100, 200] ! i * round_f32 (demo_pow 2 (12 / 12)))"
    by simp
  have hi: "data (buffer ?r) ! 2 = 200" "data (buffer ?r) ! 3 = 400"
    using h [rule_format, of 0] h [rule_format, of 1]
    by (simp_all add: eval_nat_numeral demo_pow_def round_f32_small)
  have "data (buffer ?r) = [5, 6, 200, 400]"
    using len lo hi by (auto simp add: list_eq_iff_nth_eq less_Suc_eq eval_nat_numeral)
  then have b: "buffer ?r = \<lparr>shape = [4], data = [5, 6, 200, 400]\<rparr>"
    using sh by (cases "buffer ?r") simp
  from th have "\<exists>f0_coarse. result ?r = Inr (f0_coarse, buffer ?r)" by simp
  then show ?thesis using b by simp
qed

text \<open>
  An answer of a single frame has the shape \<open>[1, 1]\<close>: \<^verbatim>\<open>squeeze\<close> removes the frame axis
  with the batch axis, \<^verbatim>\<open>f0.shape[0]\<close> raises, and nothing is written.
\<close>

lemma extract_single_frame_raises:
  assumes "ndim audio = 1" and "ndim pitchf = 1"
    and "run_f0_uv (pitch_model self) (expand_dims0 (slice_from (py_int (0.01 * sr)) audio))
           \<lparr>shape = [1], data = [threshold self]\<rparr> = Inr (out0 # outs)"
    and "shape out0 = [1, 1]" and "k / 12 < 1024"
  shows "result (RMVPEOnnxPitchExtractor_extract pow self audio pitchf k sr window sf)
           = Inl (RuntimeError ''Exception in RMVPEOnnxPitchExtractor'' (Some IndexError))
       \<and> buffer (RMVPEOnnxPitchExtractor_extract pow self audio pitchf k sr window sf) = pitchf"
proof -
  have "assign_tail pitchf
          (map_array (\<lambda>x. round_f32 (x * round_f32 (pow 2 (k / 12)))) (squeeze out0))
        = Inl IndexError"
    using assms(4) by (simp add: assign_tail_def ndim_def map_array_def squeeze_def)
  then show ?thesis
    by (simp add: result_extract buffer_extract extract_try_run [OF assms(1,2,3,5)] Let_def)
qed

text \<open>
  C7 (the right-aligned write). The claim has \<^verbatim>\<open>extract\<close> write every F0 array of length
  \<open>n \<le> L\<close> into the tail of the buffer. The code does not for \<open>n = 1\<close>: when the pitch
  session finds the single frame \<open>100\<close> and the buffer holds the four frames \<open>5, 6, 7, 8\<close>,
  \<^verbatim>\<open>extract\<close> raises the \<^verbatim>\<open>RuntimeError\<close> that wraps an \<^verbatim>\<open>IndexError\<close> and the buffer still
  holds \<open>5, 6, 7, 8\<close>, where the claim has \<open>100\<close> in its last position.
\<close>

theorem single_frame_write_fails:
  "result (RMVPEOnnxPitchExtractor_extract demo_pow (extractor_of one_frame_pitch_session)
             demo_audio demo_pitchf 0 300 160 0)
     = Inl (RuntimeError ''Exception in RMVPEOnnxPitchExtractor'' (Some IndexError))
   \<and> buffer (RMVPEOnnxPitchExtractor_extract demo_pow (extractor_of one_frame_pitch_session)
               demo_audio demo_pitchf 0 300 160 0)
       = \<lparr>shape = [4], data = [5, 6, 7, 8]\<rparr>"
proof -
  have a: "ndim demo_audio = 1" "ndim demo_pitchf = 1"
    by (simp_all add: ndim_def demo_audio_def demo_pitchf_def)
  have e: "run_f0_uv (pitch_model (extractor_of one_frame_pitch_session))
             (expand_dims0 (slice_from (py_int (0.01 * 300)) demo_audio))
             \<lparr>shape = [1], data = [threshold (extractor_of one_frame_pitch_session)]\<rparr>
           = Inr [\<lparr>shape = [1, 1], data = [100]\<rparr>, \<lparr>shape = [1, 1], data = [0]\<rparr>]"
    by (simp add: demo_extractor_fields one_frame_pitch_session_def)
  have q: "shape \<lparr>shape = [1, 1], data = [100 :: real]\<rparr> = [1, 1]" by simp
  have k: "(0::real) / 12 < 1024" by simp
  from extract_single_frame_raises [OF a e q k, of demo_pow 160 0]
  show ?thesis by (simp add: demo_pitchf_def)
qed

text \<open>
  C8 (the fixed lead-in trim). A call of \<^verbatim>\<open>extract\<close> does not depend on \<^verbatim>\<open>silence_front\<close> (nor
  on \<^verbatim>\<open>window\<close>): two calls that differ only there do the same and return the same. For
  one-dimensional arrays and a sample rate of at least \<open>0\<close>, the waveform handed to the
  pitch session is the audio without its first \<open>int(0.01 * sr)\<close> samples.
\<close>

theorem lead_in_trim_fixed:
  "RMVPEOnnxPitchExtractor_extract pow self audio pitchf f0_up_key sr window silence_front
     = RMVPEOnnxPitchExtractor_extract pow self audio pitchf f0_up_key sr window' silence_front'
   \<and> (ndim audio = 1 \<and> ndim pitchf = 1 \<and> 0 \<le> sr \<longrightarrow>
        calls (RMVPEOnnxPitchExtractor_extract pow self audio pitchf f0_up_key sr window
                 silence_front)
          = [(\<lparr>shape = [1, length (data audio) - nat (py_int (0.01 * sr))],
               data = drop (nat (py_int (0.01 * sr))) (data audio)\<rparr>,
              \<lparr>shape = [1], data = [threshold self]\<rparr>)])"
proof (intro conjI impI)
  show "RMVPEOnnxPitchExtractor_extract pow self audio pitchf f0_up_key sr window silence_front
     = RMVPEOnnxPitchExtractor_extract pow self audio pitchf f0_up_key sr window' silence_front'"
    by (simp add: RMVPEOnnxPitchExtractor_extract_def extract_try_def)
next
  assume a: "ndim audio = 1 \<and> ndim pitchf = 1 \<and> 0 \<le> sr"
  then have "0 \<le> py_int (0.01 * sr)" by (simp add: py_int_nonneg)
  then show "calls (RMVPEOnnxPitchExtractor_extract pow self audio pitchf f0_up_key sr window
                 silence_front)
          = [(\<lparr>shape = [1, length (data audio) - nat (py_int (0.01 * sr))],
               data = drop (nat (py_int (0.01 * sr))) (data audio)\<rparr>,
              \<lparr>shape = [1], data = [threshold self]\<rparr>)]"
    using a by (simp add: calls_extract calls_extract_try slice_from_nonneg expand_dims0_def)
qed

theorem lead_in_trim_fixed_witness:
  "RMVPEOnnxPitchExtractor_extract demo_pow (extractor_of demo_pitch_session) demo_audio
       demo_pitchf 0 300 160 0
     = RMVPEOnnxPitchExtractor_extract demo_pow (extractor_of demo_pitch_session) demo_audio
         demo_pitchf 0 300 160 2
   \<and> calls (RMVPEOnnxPitchExtractor_extract demo_pow (extractor_of demo_pitch_session)
              demo_audio demo_pitchf 0 300 160 0)
       = [(\<lparr>shape = [1, 2], data = [0.5, 0.625]\<rparr>, \<lparr>shape = [1], data = [0.03]\<rparr>)]"
proof -
  have a: "ndim demo_audio = 1" "ndim demo_pitchf = 1"
    by (simp_all add: ndim_def demo_audio_def demo_pitchf_def)
  from lead_in_trim_fixed
    [where pow = demo_pow and self = "extractor_of demo_pitch_session" and audio = demo_audio
       and pitchf = demo_pitchf and ?f0_up_key = 0 and sr = 300 and window = 160
       and silence_front = 0 and window' = 160 and silence_front' = 2]
  show ?thesis using a
    by (auto simp add: py_int_def demo_extractor_fields demo_audio_def numeral_2_eq_2)
qed

text \<open>
  C9 (errors are wrapped). Whenever \<^verbatim>\<open>extract\<close> fails, what it raises is one
  \<^verbatim>\<open>RuntimeError\<close> whose message names the class and whose second argument is the
  exception that was raised inside, and the caller's buffer is as it was. An audio array
  that is not one-dimensional, a pitch buffer that is not one-dimensional and a failure
  of the session each surface this way, with their own exception as the cause.
\<close>

theorem extraction_error_wrapped:
  fixes self :: RMVPEOnnxPitchExtractor and audio pitchf :: "real ndarray"
    and f0_up_key sr window silence_front :: real and pow :: "real \<Rightarrow> real \<Rightarrow> real"
  defines "r \<equiv> RMVPEOnnxPitchExtractor_extract pow self audio pitchf f0_up_key sr window
                  silence_front"
  shows "(\<forall>e. result r = Inl e \<longrightarrow>
            (\<exists>cause. e = RuntimeError ''Exception in RMVPEOnnxPitchExtractor'' (Some cause))
            \<and> buffer r = pitchf)
       \<and> (ndim audio \<noteq> 1 \<longrightarrow>
            result r = Inl (RuntimeError ''Exception in RMVPEOnnxPitchExtractor''
                         (Some (RuntimeError (ndim_message ''audio'' audio) None))))
       \<and> (ndim audio = 1 \<and> ndim pitchf \<noteq> 1 \<longrightarrow>
            result r = Inl (RuntimeError ''Exception in RMVPEOnnxPitchExtractor''
                         (Some (RuntimeError (ndim_message ''pitchf'' pitchf) None))))
       \<and> (\<forall>e. ndim audio = 1 \<and> ndim pitchf = 1
              \<and> run_f0_uv (pitch_model self)
                    (expand_dims0 (slice_from (py_int (0.01 * sr)) audio))
                    \<lparr>shape = [1], data = [threshold self]\<rparr> = Inl e \<longrightarrow>
            result r = Inl (RuntimeError ''Exception in RMVPEOnnxPitchExtractor'' (Some e)))"
proof (intro conjI allI impI)
  fix e assume a: "result r = Inl e"
  then obtain cause
    where c: "result (extract_try pow self audio pitchf f0_up_key sr window silence_front)
                = Inl cause"
    and e: "e = RuntimeError ''Exception in RMVPEOnnxPitchExtractor'' (Some cause)"
    unfolding r_def by (auto simp add: result_extract split: sum.splits)
  from e show "\<exists>cause. e = RuntimeError ''Exception in RMVPEOnnxPitchExtractor'' (Some cause)"
    by blast
  from c show "buffer r = pitchf"
    unfolding r_def by (simp add: buffer_extract buffer_extract_try_failed)
next
  assume "ndim audio \<noteq> 1"
  then show "result r = Inl (RuntimeError ''Exception in RMVPEOnnxPitchExtractor''
                         (Some (RuntimeError (ndim_message ''audio'' audio) None)))"
    unfolding r_def by (simp add: result_extract extract_try_def)
next
  assume "ndim audio = 1 \<and> ndim pitchf \<noteq> 1"
  then show "result r = Inl (RuntimeError ''Exception in RMVPEOnnxPitchExtractor''
                         (Some (RuntimeError (ndim_message ''pitchf'' pitchf) None)))"
    unfolding r_def by (simp add: result_extract extract_try_def)
next
  fix e
  assume "ndim audio = 1 \<and> ndim pitchf = 1
              \<and> run_f0_uv (pitch_model self)
                    (expand_dims0 (slice_from (py_int (0.01 * sr)) audio))
                    \<lparr>shape = [1], data = [threshold self]\<rparr> = Inl e"
  then show "result r = Inl (RuntimeError ''Exception in RMVPEOnnxPitchExtractor'' (Some e))"
    unfolding r_def by (simp add: result_extract extract_try_def Let_def)
qed

theorem extraction_error_wrapped_witness:
  "result (RMVPEOnnxPitchExtractor_extract demo_pow (extractor_of failing_pitch_session)
             demo_audio demo_pitchf 0 300 160 0)
     = Inl (RuntimeError ''Exception in RMVPEOnnxPitchExtractor''
              (Some (OrtError ''invalid input'')))
   \<and> buffer (RMVPEOnnxPitchExtractor_extract demo_pow (extractor_of failing_pitch_session)
               demo_audio demo_pitchf 0 300 160 0) = demo_pitchf
   \<and> result (RMVPEOnnxPitchExtractor_extract demo_pow (extractor_of demo_pitch_session)
               (expand_dims0 demo_audio) demo_pitchf 0 300 160 0)
       = Inl (RuntimeError ''Exception in RMVPEOnnxPitchExtractor''
                (Some (RuntimeError
                  ''Exception in RMVPEOnnxPitchExtractor: audio.ndim is not 1 (size: 2, shape: (1, 5))''
                  None)))"
proof -
  let ?r = "RMVPEOnnxPitchExtractor_extract demo_pow (extractor_of failing_pitch_session)
              demo_audio demo_pitchf 0 300 160 0"
  have a: "ndim demo_audio = 1" "ndim demo_pitchf = 1"
    by (simp_all add: ndim_def demo_audio_def demo_pitchf_def)
  have f: "run_f0_uv (pitch_model (extractor_of failing_pitch_session))
             (expand_dims0 (slice_from (py_int (0.01 * 300)) demo_audio))
             \<lparr>shape = [1], data = [threshold (extractor_of failing_pitch_session)]\<rparr>
           = Inl (OrtError ''invalid input'')"
    by (simp add: demo_extractor_fields failing_pitch_session_def)
  note th = extraction_error_wrapped
    [where pow = demo_pow and self = "extractor_of failing_pitch_session"
       and audio = demo_audio and pitchf = demo_pitchf and ?f0_up_key = 0 and sr = 300
       and window = 160 and silence_front = 0]
  from th a f have r1: "result ?r = Inl (RuntimeError ''Exception in RMVPEOnnxPitchExtractor''
              (Some (OrtError ''invalid input'')))"
    by blast
  with th have r2: "buffer ?r = demo_pitchf" by blast
  have b: "ndim (expand_dims0 demo_audio) \<noteq> 1"
    by (simp add: ndim_def expand_dims0_def demo_audio_def)
  have m: "ndim_message ''audio'' (expand_dims0 demo_audio)
           = ''Exception in RMVPEOnnxPitchExtractor: audio.ndim is not 1 (size: 2, shape: (1, 5))''"
    by (simp add: ndim_message_def class_name_def ndim_def expand_dims0_def demo_audio_def
        show_nat.simps)
  from extraction_error_wrapped
    [where pow = demo_pow and self = "extractor_of demo_pitch_session"
       and audio = "expand_dims0 demo_audio" and pitchf = demo_pitchf and ?f0_up_key = 0
       and sr = 300 and window = 160 and silence_front = 0] b
  have r3: "result (RMVPEOnnxPitchExtractor_extract demo_pow (extractor_of demo_pitch_session)
               (expand_dims0 demo_audio) demo_pitchf 0 300 160 0)
       = Inl (RuntimeError ''Exception in RMVPEOnnxPitchExtractor''
                (Some (RuntimeError (ndim_message ''audio'' (expand_dims0 demo_audio)) None)))"
    by blast
  from r1 r2 r3 show ?thesis by (simp add: m)
qed

end
